theory Spec2Isabelle
  imports Main "HOL-Library.Sublist"
begin

section \<open>JavaScript values and the operations the handler applies to them\<close>

text \<open>
  The handler of \<^verbatim>\<open>netlify/functions/soniclab-api.js\<close> works on values that come out of
  \<^verbatim>\<open>JSON.parse\<close> and \<^verbatim>\<open>response.json()\<close>, plus \<^verbatim>\<open>undefined\<close> (a missing property, an
  unset environment variable). The program does no arithmetic: a number is only tested for
  truthiness or interpolated into a string, so \<open>Num\<close> carries the decimal text that
  JavaScript's \<^verbatim>\<open>ToString\<close> gives for it (\<open>''0''\<close> for both zeros). An object is the
  list of its own properties in insertion order, with distinct keys, as the parser leaves it.
  Strings are byte strings in UTF-8; the literals of the source that are not ASCII are
  spelled out byte by byte.
\<close>

datatype jsval =
    Undefined
  | Null
  | Bool bool
  | Num string
  | Str string
  | Arr "jsval list"
  | Obj "(string \<times> jsval) list"

text \<open>
  Every exception of the program is an \<^verbatim>\<open>Error\<close> object, and the only thing ever read from
  it is \<^verbatim>\<open>error.message\<close>. \<open>Error\<close> is \<^verbatim>\<open>throw new Error(...)\<close> of the source,
  \<open>TypeError\<close> is raised by the engine (the text is the one Node.js prints),
  \<open>SyntaxError\<close> is a failed \<^verbatim>\<open>JSON.parse\<close>, and \<open>FetchError\<close> is a rejected
  \<^verbatim>\<open>fetch\<close> or \<^verbatim>\<open>response.json()\<close> of node-fetch.
\<close>

datatype js_error =
    Error string
  | TypeError string
  | SyntaxError string
  | FetchError string

fun message :: "js_error \<Rightarrow> string" where
  "message (Error m) = m"
| "message (TypeError m) = m"
| "message (SyntaxError m) = m"
| "message (FetchError m) = m"

definition quoted :: "string \<Rightarrow> string" where
  "quoted k = [CHR 0x27] @ k @ [CHR 0x27]"

text \<open>\<^verbatim>\<open>v.k\<close> for a property name \<open>k\<close> that no prototype defines (all the names the source
  reads are of that kind): \<^verbatim>\<open>null\<close> and \<^verbatim>\<open>undefined\<close> throw, an object gives its own
  property or \<^verbatim>\<open>undefined\<close>, every other value gives \<^verbatim>\<open>undefined\<close>.\<close>

fun get_prop :: "jsval \<Rightarrow> string \<Rightarrow> js_error + jsval" where
  "get_prop Undefined k =
     Inl (TypeError (''Cannot read properties of undefined (reading '' @ quoted k @ '')''))"
| "get_prop Null k =
     Inl (TypeError (''Cannot read properties of null (reading '' @ quoted k @ '')''))"
| "get_prop (Obj kvs) k = Inr (case map_of kvs k of None \<Rightarrow> Undefined | Some v \<Rightarrow> v)"
| "get_prop v k = Inr Undefined"

text \<open>\<^verbatim>\<open>v[0]\<close>: the first element of an array, the first character of a string, the
  property \<^verbatim>\<open>"0"\<close> of an object.\<close>

fun get_index0 :: "jsval \<Rightarrow> js_error + jsval" where
  "get_index0 Undefined =
     Inl (TypeError (''Cannot read properties of undefined (reading '' @ quoted ''0'' @ '')''))"
| "get_index0 Null =
     Inl (TypeError (''Cannot read properties of null (reading '' @ quoted ''0'' @ '')''))"
| "get_index0 (Arr xs) = Inr (case xs of [] \<Rightarrow> Undefined | x # _ \<Rightarrow> x)"
| "get_index0 (Str s) = Inr (case s of [] \<Rightarrow> Undefined | c # _ \<Rightarrow> Str [c])"
| "get_index0 (Obj kvs) = Inr (case map_of kvs ''0'' of None \<Rightarrow> Undefined | Some v \<Rightarrow> v)"
| "get_index0 v = Inr Undefined"

text \<open>\<^verbatim>\<open>v?.k\<close>: optional chaining stops at \<^verbatim>\<open>null\<close> and \<^verbatim>\<open>undefined\<close>.\<close>

fun opt_prop :: "jsval \<Rightarrow> string \<Rightarrow> js_error + jsval" where
  "opt_prop Undefined k = Inr Undefined"
| "opt_prop Null k = Inr Undefined"
| "opt_prop v k = get_prop v k"

text \<open>Truthiness, as \<^verbatim>\<open>||\<close>, \<^verbatim>\<open>&&\<close>, \<^verbatim>\<open>?:\<close> and \<^verbatim>\<open>if\<close> test it.\<close>

fun truthy :: "jsval \<Rightarrow> bool" where
  "truthy Undefined = False"
| "truthy Null = False"
| "truthy (Bool b) = b"
| "truthy (Num s) = (s \<noteq> ''0'' \<and> s \<noteq> ''NaN'')"
| "truthy (Str s) = (s \<noteq> [])"
| "truthy (Arr xs) = True"
| "truthy (Obj kvs) = True"

fun join_comma :: "string list \<Rightarrow> string" where
  "join_comma [] = []"
| "join_comma [s] = s"
| "join_comma (s # t # ss) = s @ '','' @ join_comma (t # ss)"

text \<open>The results of a list of steps run from left to right, or the first error.\<close>

fun collect :: "(js_error + 'a) list \<Rightarrow> js_error + 'a list" where
  "collect [] = Inr []"
| "collect (Inl x # rs) = Inl x"
| "collect (Inr a # rs) = (case collect rs of Inl x \<Rightarrow> Inl x | Inr as \<Rightarrow> Inr (a # as))"

text \<open>
  \<^verbatim>\<open>ToString\<close>, as a template literal and \<^verbatim>\<open>new Error(v)\<close> apply it. It can throw:
  a parsed object is rendered by the inherited \<^verbatim>\<open>toString\<close> unless it has an own property
  of that name, which, coming from JSON, is no function; then no conversion to a primitive
  exists. An array is rendered by \<^verbatim>\<open>join\<close>, which renders the elements in turn
  (\<^verbatim>\<open>null\<close> and \<^verbatim>\<open>undefined\<close> as the empty string).
\<close>

fun to_string :: "jsval \<Rightarrow> js_error + string" where
  "to_string Undefined = Inr ''undefined''"
| "to_string Null = Inr ''null''"
| "to_string (Bool b) = Inr (if b then ''true'' else ''false'')"
| "to_string (Num s) = Inr s"
| "to_string (Str s) = Inr s"
| "to_string (Arr xs) =
     (case collect (map (\<lambda>x. case x of Undefined \<Rightarrow> Inr [] | Null \<Rightarrow> Inr []
                                 | _ \<Rightarrow> to_string x) xs) of
        Inl x \<Rightarrow> Inl x
      | Inr ss \<Rightarrow> Inr (join_comma ss))"
| "to_string (Obj kvs) =
     (if map_of kvs ''toString'' = None then Inr ''[object Object]''
      else Inl (TypeError ''Cannot convert object to primitive value''))"

text \<open>\<^verbatim>\<open>a || fallback\<close> rendered as the message of a new error.\<close>

definition or_else :: "jsval \<Rightarrow> string \<Rightarrow> js_error + string" where
  "or_else v fallback = (if truthy v then to_string v else Inr fallback)"

text \<open>\<^verbatim>\<open>throw new Error(text)\<close>: the error thrown is the new \<^verbatim>\<open>Error\<close>, unless
  rendering the text has thrown before.\<close>

definition thrown :: "js_error + string \<Rightarrow> js_error" where
  "thrown r = (case r of Inl x \<Rightarrow> x | Inr m \<Rightarrow> Error m)"

text \<open>
  \<^verbatim>\<open>JSON.stringify\<close> of a value the program builds. The serialised text is represented by
  the value it denotes: a property whose value is \<^verbatim>\<open>undefined\<close> is left out of an object,
  \<^verbatim>\<open>undefined\<close> in an array becomes \<^verbatim>\<open>null\<close>, and so does a number that is
  not finite.
\<close>

fun stringify :: "jsval \<Rightarrow> jsval" where
  "stringify (Arr xs) =
     Arr (map (\<lambda>x. case x of Undefined \<Rightarrow> Null | _ \<Rightarrow> stringify x) xs)"
| "stringify (Obj kvs) =
     Obj (map (\<lambda>(k, v). (k, stringify v)) (filter (\<lambda>(k, v). v \<noteq> Undefined) kvs))"
| "stringify (Num s) =
     (if s = ''Infinity'' \<or> s = ''-Infinity'' \<or> s = ''NaN'' then Null else Num s)"
| "stringify v = v"

text \<open>\<^verbatim>\<open>v.startsWith(p)\<close>, \<open>name\<close> being the variable the source calls it on.\<close>

fun startsWith :: "string \<Rightarrow> jsval \<Rightarrow> string \<Rightarrow> js_error + bool" where
  "startsWith name (Str s) p = Inr (prefix p s)"
| "startsWith name Undefined p =
     Inl (TypeError (''Cannot read properties of undefined (reading '' @ quoted ''startsWith'' @ '')''))"
| "startsWith name Null p =
     Inl (TypeError (''Cannot read properties of null (reading '' @ quoted ''startsWith'' @ '')''))"
| "startsWith name v p = Inl (TypeError (name @ ''.startsWith is not a function''))"

text \<open>\<^verbatim>\<open>s.split(sep)[0]\<close> for a separator that is not empty: the text before the first
  occurrence of \<open>sep\<close>, and all of \<open>s\<close> when there is none.\<close>

fun before_sep :: "string \<Rightarrow> string \<Rightarrow> string" where
  "before_sep sep [] = []"
| "before_sep sep (c # cs) = (if prefix sep (c # cs) then [] else c # before_sep sep cs)"

fun split_first :: "string \<Rightarrow> jsval \<Rightarrow> string \<Rightarrow> js_error + jsval" where
  "split_first name (Str s) sep = Inr (Str (before_sep sep s))"
| "split_first name Undefined sep =
     Inl (TypeError (''Cannot read properties of undefined (reading '' @ quoted ''split'' @ '')''))"
| "split_first name Null sep =
     Inl (TypeError (''Cannot read properties of null (reading '' @ quoted ''split'' @ '')''))"
| "split_first name v sep = Inl (TypeError (name @ ''.split is not a function''))"

definition bind_err :: "js_error + 'a \<Rightarrow> ('a \<Rightarrow> js_error + 'b) \<Rightarrow> js_error + 'b" where
  "bind_err r f = (case r of Inl e \<Rightarrow> Inl e | Inr x \<Rightarrow> f x)"

text \<open>\<^verbatim>\<open>result.candidates[0].content.parts[0].text\<close>\<close>

definition first_candidate_text :: "jsval \<Rightarrow> js_error + jsval" where
  "first_candidate_text result =
     bind_err (get_prop result ''candidates'') (\<lambda>candidates.
     bind_err (get_index0 candidates) (\<lambda>candidate.
     bind_err (get_prop candidate ''content'') (\<lambda>content.
     bind_err (get_prop content ''parts'') (\<lambda>parts.
     bind_err (get_index0 parts) (\<lambda>part.
     get_prop part ''text'')))))"

text \<open>\<^verbatim>\<open>errorData.error?.message || fallback\<close>\<close>

definition provider_message :: "jsval \<Rightarrow> string \<Rightarrow> js_error + string" where
  "provider_message errorData fallback =
     bind_err (get_prop errorData ''error'') (\<lambda>err.
     bind_err (opt_prop err ''message'') (\<lambda>m.
     or_else m fallback))"

text \<open>\<^verbatim>\<open>result.predictions && result.predictions[0]?.bytesBase64Encoded\<close>\<close>

definition image_payload :: "jsval \<Rightarrow> js_error + jsval" where
  "image_payload result =
     bind_err (get_prop result ''predictions'') (\<lambda>predictions.
     if truthy predictions
     then bind_err (get_index0 predictions) (\<lambda>p. opt_prop p ''bytesBase64Encoded'')
     else Inr predictions)"

section \<open>The outside world\<close>

text \<open>
  A request is what \<^verbatim>\<open>fetch\<close> is called with; \<open>req_body\<close> is the value whose
  \<^verbatim>\<open>JSON.stringify\<close> text is sent (\<open>Undefined\<close> when the call has no body). A response
  is its HTTP status and the outcome of \<^verbatim>\<open>response.json()\<close>.

  The program is sequential and deterministic, so the requests it makes are a function of the
  responses it has received: the providers are a stream of responses, the \<open>n\<close>-th
  \<^verbatim>\<open>fetch\<close> of an invocation receiving the \<open>n\<close>-th one. The state threaded through the
  code is the trace of requests made so far. The 2500 ms sleep between two polls and
  \<^verbatim>\<open>console.error\<close> have no effect on what is returned and are left out.
\<close>

record request =
  url :: string
  http_method :: string
  headers :: "(string \<times> string) list"
  req_body :: jsval

record http_response =
  status :: nat
  json :: "js_error + jsval"

definition ok :: "http_response \<Rightarrow> bool" where
  "ok r = (200 \<le> status r \<and> status r < 300)"

type_synonym world = "nat \<Rightarrow> js_error + http_response"

type_synonym trace = "request list"

definition fetch :: "world \<Rightarrow> request \<Rightarrow> trace \<Rightarrow> (js_error + http_response) \<times> trace" where
  "fetch w req tr = (w (length tr), tr @ [req])"

text \<open>\<^verbatim>\<open>process.env\<close>: a variable is a string or unset; a template literal renders an
  unset one as \<^verbatim>\<open>undefined\<close>.\<close>

record env =
  GEMINI_API_KEY :: "string option"
  REPLICATE_API_KEY :: "string option"

fun key_text :: "string option \<Rightarrow> string" where
  "key_text None = ''undefined''"
| "key_text (Some k) = k"

text \<open>The event: \<open>parsed_body\<close> is the outcome of \<^verbatim>\<open>JSON.parse(event.body)\<close>, \<open>Inl\<close> when
  it throws.\<close>

record event =
  httpMethod :: string
  parsed_body :: "js_error + jsval"

text \<open>What the handler returns: \<open>body\<close> is the value whose \<^verbatim>\<open>JSON.stringify\<close> text is
  the body.\<close>

record response =
  statusCode :: nat
  body :: jsval

definition a_acute :: string where "a_acute = [CHR 0xC3, CHR 0xA1]"
definition o_acute :: string where "o_acute = [CHR 0xC3, CHR 0xB3]"
definition u_acute :: string where "u_acute = [CHR 0xC3, CHR 0xBA]"

section \<open>The helper functions\<close>

definition callImageAPI ::
  "world \<Rightarrow> jsval \<Rightarrow> string option \<Rightarrow> trace \<Rightarrow> (js_error + jsval) \<times> trace" where
  "callImageAPI w prompt apiKey tr =
     (case fetch w
        \<lparr>url = ''https://generativelanguage.googleapis.com/v1beta/models/imagen-3.0-generate-002:predict?key=''
                @ key_text apiKey,
         http_method = ''POST'',
         headers = [(''Content-Type'', ''application/json'')],
         req_body = stringify (Obj [(''instances'', Arr [Obj [(''prompt'', prompt)]]),
                                    (''parameters'', Obj [(''sampleCount'', Num ''1'')])])\<rparr> tr of
        (Inl e, tr1) \<Rightarrow> (Inl e, tr1)
      | (Inr response, tr1) \<Rightarrow>
          if \<not> ok response then
            (case json response of
               Inl e \<Rightarrow> (Inl e, tr1)
             | Inr errorData \<Rightarrow>
                 (case provider_message errorData ''Error en la API de Imagen.'' of
                    Inl e \<Rightarrow> (Inl e, tr1)
                  | Inr m \<Rightarrow> (Inl (Error m), tr1)))
          else
            (case json response of
               Inl e \<Rightarrow> (Inl e, tr1)
             | Inr result \<Rightarrow>
                 (case image_payload result of
                    Inl e \<Rightarrow> (Inl e, tr1)
                  | Inr b \<Rightarrow>
                      if truthy b then
                        (case to_string b of
                           Inl e \<Rightarrow> (Inl e, tr1)
                         | Inr rendered \<Rightarrow> (Inr (Str (''data:image/png;base64,'' @ rendered)), tr1))
                      else (Inl (Error ''No se pudo generar la imagen.''), tr1))))"

definition callGeminiAPI ::
  "world \<Rightarrow> jsval \<Rightarrow> string option \<Rightarrow> trace \<Rightarrow> (js_error + jsval) \<times> trace" where
  "callGeminiAPI w prompt apiKey tr =
     (case fetch w
        \<lparr>url = ''https://generativelanguage.googleapis.com/v1beta/models/gemini-1.5-flash-latest:generateContent?key=''
                @ key_text apiKey,
         http_method = ''POST'',
         headers = [(''Content-Type'', ''application/json'')],
         req_body = stringify (Obj [(''contents'', Arr [Obj [(''parts'', Arr [Obj [(''text'', prompt)]])]])])\<rparr> tr of
        (Inl e, tr1) \<Rightarrow> (Inl e, tr1)
      | (Inr response, tr1) \<Rightarrow>
          if \<not> ok response then
            (case json response of
               Inl e \<Rightarrow> (Inl e, tr1)
             | Inr errorData \<Rightarrow>
                 (case provider_message errorData ''Error en la API de Gemini.'' of
                    Inl e \<Rightarrow> (Inl e, tr1)
                  | Inr m \<Rightarrow> (Inl (Error m), tr1)))
          else
            (case json response of
               Inl e \<Rightarrow> (Inl e, tr1)
             | Inr result \<Rightarrow> (first_candidate_text result, tr1)))"

text \<open>
  The poll loop of \<^verbatim>\<open>callReplicateAPI\<close>. It has no bound on the number of rounds, so it is
  a partial function: \<open>None\<close> is the loop that never ends. It returns the terminal
  prediction, or the error thrown inside the loop.
\<close>

partial_function (option) callReplicateAPI_poll ::
  "world \<Rightarrow> string option \<Rightarrow> jsval \<Rightarrow> trace \<Rightarrow> ((js_error + jsval) \<times> trace) option" where
  "callReplicateAPI_poll w apiKey prediction tr =
     (case get_prop prediction ''status'' of
        Inl e \<Rightarrow> Some (Inl e, tr)
      | Inr st \<Rightarrow>
          if st \<noteq> Str ''succeeded'' \<and> st \<noteq> Str ''failed'' then
            (case get_prop prediction ''id'' of
               Inl e \<Rightarrow> Some (Inl e, tr)
             | Inr ident \<Rightarrow>
             (case to_string ident of
               Inl e \<Rightarrow> Some (Inl e, tr)
             | Inr rendered \<Rightarrow>
                 (case fetch w
                    \<lparr>url = ''https://api.replicate.com/v1/predictions/'' @ rendered,
                     http_method = ''GET'',
                     headers = [(''Authorization'', ''Token '' @ key_text apiKey)],
                     req_body = Undefined\<rparr> tr of
                    (Inl e, tr1) \<Rightarrow> Some (Inl e, tr1)
                  | (Inr pollResponse, tr1) \<Rightarrow>
                      (case json pollResponse of
                         Inl e \<Rightarrow> Some (Inl e, tr1)
                       | Inr prediction1 \<Rightarrow>
                           if status pollResponse \<noteq> 200 then
                             (case get_prop prediction1 ''detail'' of
                                Inl e \<Rightarrow> Some (Inl e, tr1)
                              | Inr detail \<Rightarrow>
                                  Some (Inl (thrown (or_else detail
                                    ''Error al consultar el estado de la tarea.'')), tr1))
                           else callReplicateAPI_poll w apiKey prediction1 tr1))))
          else Some (Inr prediction, tr))"

definition callReplicateAPI ::
  "world \<Rightarrow> jsval \<Rightarrow> jsval \<Rightarrow> string option \<Rightarrow> trace \<Rightarrow> ((js_error + jsval) \<times> trace) option" where
  "callReplicateAPI w model input apiKey tr =
     (case fetch w
        \<lparr>url = ''https://api.replicate.com/v1/predictions'',
         http_method = ''POST'',
         headers = [(''Authorization'', ''Token '' @ key_text apiKey),
                    (''Content-Type'', ''application/json'')],
         req_body = stringify (Obj [(''version'', model), (''input'', input)])\<rparr> tr of
        (Inl e, tr1) \<Rightarrow> Some (Inl e, tr1)
      | (Inr startResponse, tr1) \<Rightarrow>
          (case json startResponse of
             Inl e \<Rightarrow> Some (Inl e, tr1)
           | Inr prediction \<Rightarrow>
               if status startResponse \<noteq> 201 then
                 (case get_prop prediction ''detail'' of
                    Inl e \<Rightarrow> Some (Inl e, tr1)
                  | Inr detail \<Rightarrow>
                      Some (Inl (thrown (or_else detail
                        ''Error al iniciar la tarea en Replicate.'')), tr1))
               else
                 (case callReplicateAPI_poll w apiKey prediction tr1 of
                    None \<Rightarrow> None
                  | Some (Inl e, tr2) \<Rightarrow> Some (Inl e, tr2)
                  | Some (Inr final, tr2) \<Rightarrow>
                      (case get_prop final ''status'' of
                         Inl e \<Rightarrow> Some (Inl e, tr2)
                       | Inr st \<Rightarrow>
                           if st = Str ''failed'' then
                             (case get_prop final ''error'' of
                                Inl e \<Rightarrow> Some (Inl e, tr2)
                              | Inr err \<Rightarrow>
                                  (case to_string err of
                                     Inl e \<Rightarrow> Some (Inl e, tr2)
                                   | Inr rendered \<Rightarrow>
                                       Some (Inl (Error (''La tarea en Replicate fall'' @ o_acute
                                         @ '': '' @ rendered)), tr2)))
                           else
                             (case get_prop final ''output'' of
                                Inl e \<Rightarrow> Some (Inl e, tr2)
                              | Inr output \<Rightarrow> Some (Inr output, tr2))))))"

section \<open>The handler\<close>

text \<open>
  The handler's body is one \<^verbatim>\<open>try\<close> block with three branches. Each branch is a
  definition of its own, in the order of the source; inside the \<^verbatim>\<open>try\<close> a result is
  \<open>Inl\<close> of the error thrown or \<open>Inr\<close> of the value returned, where \<open>None\<close> is
  \<^verbatim>\<open>undefined\<close>, the value of a function body that ends without \<^verbatim>\<open>return\<close>.
\<close>

text \<open>The branch \<^verbatim>\<open>toolType.startsWith('gemini')\<close>.\<close>

definition handler_gemini ::
  "world \<Rightarrow> env \<Rightarrow> jsval \<Rightarrow> jsval \<Rightarrow> trace \<Rightarrow> (js_error + response option) \<times> trace" where
  "handler_gemini w e toolType inputs tr =
     (case get_prop inputs ''prompt'' of
        Inl x \<Rightarrow> (Inl x, tr)
      | Inr prompt \<Rightarrow>
          (case fetch w
             \<lparr>url = ''https://generativelanguage.googleapis.com/v1beta/models/gemini-1.5-flash-latest:generateContent?key=''
                     @ key_text (GEMINI_API_KEY e),
              http_method = ''POST'',
              headers = [(''Content-Type'', ''application/json'')],
              req_body = stringify (Obj [(''contents'', Arr [Obj [(''parts'', Arr [Obj [(''text'', prompt)]])]])])\<rparr> tr of
             (Inl x, tr1) \<Rightarrow> (Inl x, tr1)
           | (Inr response, tr1) \<Rightarrow>
               if \<not> ok response then
                 (case json response of
                    Inl x \<Rightarrow> (Inl x, tr1)
                  | Inr errorData \<Rightarrow>
                      (case provider_message errorData ''Error en la API de Gemini.'' of
                         Inl x \<Rightarrow> (Inl x, tr1)
                       | Inr m \<Rightarrow> (Inl (Error m), tr1)))
               else
                 (case json response of
                    Inl x \<Rightarrow> (Inl x, tr1)
                  | Inr result \<Rightarrow>
                      (case first_candidate_text result of
                         Inl x \<Rightarrow> (Inl x, tr1)
                       | Inr textContent \<Rightarrow>
                           if toolType = Str ''gemini-image'' then
                             (case split_first ''textContent'' textContent ''**Tip de Oro'' of
                                Inl x \<Rightarrow> (Inl x, tr1)
                              | Inr imagePrompt \<Rightarrow>
                                  (case callImageAPI w imagePrompt (GEMINI_API_KEY e) tr1 of
                                     (Inl x, tr2) \<Rightarrow> (Inl x, tr2)
                                   | (Inr imageUrl, tr2) \<Rightarrow>
                                       (Inr (Some \<lparr>statusCode = 200,
                                          body = stringify (Obj [(''type'', Str ''gemini-image''),
                                                                 (''data'', imageUrl)])\<rparr>), tr2)))
                           else
                             (Inr (Some \<lparr>statusCode = 200,
                                body = stringify (Obj [(''type'', toolType),
                                                       (''data'', textContent)])\<rparr>), tr1)))))"

text \<open>The poll loop written out in the branch \<^verbatim>\<open>toolType.startsWith('replicate')\<close>.\<close>

partial_function (option) handler_poll ::
  "world \<Rightarrow> env \<Rightarrow> jsval \<Rightarrow> trace \<Rightarrow> ((js_error + jsval) \<times> trace) option" where
  "handler_poll w e prediction tr =
     (case get_prop prediction ''status'' of
        Inl x \<Rightarrow> Some (Inl x, tr)
      | Inr st \<Rightarrow>
          if st \<noteq> Str ''succeeded'' \<and> st \<noteq> Str ''failed'' then
            (case get_prop prediction ''id'' of
               Inl x \<Rightarrow> Some (Inl x, tr)
             | Inr ident \<Rightarrow>
             (case to_string ident of
               Inl x \<Rightarrow> Some (Inl x, tr)
             | Inr rendered \<Rightarrow>
                 (case fetch w
                    \<lparr>url = ''https://api.replicate.com/v1/predictions/'' @ rendered,
                     http_method = ''GET'',
                     headers = [(''Authorization'', ''Token '' @ key_text (REPLICATE_API_KEY e))],
                     req_body = Undefined\<rparr> tr of
                    (Inl x, tr1) \<Rightarrow> Some (Inl x, tr1)
                  | (Inr pollResponse, tr1) \<Rightarrow>
                      (case json pollResponse of
                         Inl x \<Rightarrow> Some (Inl x, tr1)
                       | Inr prediction1 \<Rightarrow>
                           if status pollResponse \<noteq> 200 then
                             (case get_prop prediction1 ''detail'' of
                                Inl x \<Rightarrow> Some (Inl x, tr1)
                              | Inr detail \<Rightarrow>
                                  Some (Inl (thrown (or_else detail
                                    ''Error al consultar el estado de la tarea.'')), tr1))
                           else handler_poll w e prediction1 tr1))))
          else Some (Inr prediction, tr))"

definition handler_replicate ::
  "world \<Rightarrow> env \<Rightarrow> jsval \<Rightarrow> jsval \<Rightarrow> trace \<Rightarrow> ((js_error + response option) \<times> trace) option" where
  "handler_replicate w e toolType inputs tr =
     (case get_prop inputs ''model'' of
        Inl x \<Rightarrow> Some (Inl x, tr)
      | Inr model \<Rightarrow>
     (case get_prop inputs ''replicate_payload'' of
        Inl x \<Rightarrow> Some (Inl x, tr)
      | Inr replicate_payload \<Rightarrow>
     (case fetch w
        \<lparr>url = ''https://api.replicate.com/v1/predictions'',
         http_method = ''POST'',
         headers = [(''Authorization'', ''Token '' @ key_text (REPLICATE_API_KEY e)),
                    (''Content-Type'', ''application/json'')],
         req_body = stringify (Obj [(''version'', model), (''input'', replicate_payload)])\<rparr> tr of
        (Inl x, tr1) \<Rightarrow> Some (Inl x, tr1)
      | (Inr startResponse, tr1) \<Rightarrow>
          (case json startResponse of
             Inl x \<Rightarrow> Some (Inl x, tr1)
           | Inr prediction \<Rightarrow>
               if status startResponse \<noteq> 201 then
                 (case get_prop prediction ''detail'' of
                    Inl x \<Rightarrow> Some (Inl x, tr1)
                  | Inr detail \<Rightarrow>
                      Some (Inl (thrown (or_else detail
                        ''Error al iniciar la tarea en Replicate.'')), tr1))
               else
                 (case handler_poll w e prediction tr1 of
                    None \<Rightarrow> None
                  | Some (Inl x, tr2) \<Rightarrow> Some (Inl x, tr2)
                  | Some (Inr final, tr2) \<Rightarrow>
                      (case get_prop final ''status'' of
                         Inl x \<Rightarrow> Some (Inl x, tr2)
                       | Inr st \<Rightarrow>
                           if st = Str ''failed'' then
                             (case get_prop final ''error'' of
                                Inl x \<Rightarrow> Some (Inl x, tr2)
                              | Inr err \<Rightarrow>
                                  (case to_string err of
                                     Inl x \<Rightarrow> Some (Inl x, tr2)
                                   | Inr rendered \<Rightarrow>
                                       Some (Inl (Error (''La tarea en Replicate fall'' @ o_acute
                                         @ '': '' @ rendered)), tr2)))
                           else
                             (case get_prop final ''output'' of
                                Inl x \<Rightarrow> Some (Inl x, tr2)
                              | Inr output \<Rightarrow>
                                  Some (Inr (Some \<lparr>statusCode = 200,
                                     body = stringify (Obj [(''type'', toolType),
                                                            (''data'', output)])\<rparr>), tr2))))))))"

text \<open>The branch \<^verbatim>\<open>toolType === 'hybrid-mastering'\<close>.\<close>

definition briefPrompt :: "jsval \<Rightarrow> string" where
  "briefPrompt reference_audio =
     ''Act'' @ u_acute @ ''a como un ingeniero de mastering de clase mundial. ''
     @ ''Voy a masterizar una canci'' @ o_acute @ ''n. ''
     @ (if truthy reference_audio
        then ''Quiero que suene como la canci'' @ o_acute @ ''n de referencia que he subido.''
        else ''No tengo una referencia.'')
     @ '' Describe en 3 puntos clave un plan de mastering para darle potencia, claridad y un car''
     @ a_acute @ ''cter comercial.''"

definition mastering_model :: string where
  "mastering_model =
     ''cjwbw/audiotools-v1:9a73e059728551733696536675a6493dfd08b3303530f78275508be61036815a''"

definition handler_hybrid ::
  "world \<Rightarrow> env \<Rightarrow> jsval \<Rightarrow> trace \<Rightarrow> ((js_error + response option) \<times> trace) option" where
  "handler_hybrid w e inputs tr =
     (case bind_err (get_prop inputs ''replicate_payload'')
             (\<lambda>p. get_prop p ''reference_audio'') of
        Inl x \<Rightarrow> Some (Inl x, tr)
      | Inr reference_audio \<Rightarrow>
     (case callGeminiAPI w (Str (briefPrompt reference_audio)) (GEMINI_API_KEY e) tr of
        (Inl x, tr1) \<Rightarrow> Some (Inl x, tr1)
      | (Inr brief, tr1) \<Rightarrow>
     (case bind_err (get_prop inputs ''replicate_payload'') (\<lambda>p. get_prop p ''userTrack'') of
        Inl x \<Rightarrow> Some (Inl x, tr1)
      | Inr userTrack \<Rightarrow>
     (case bind_err (get_prop inputs ''replicate_payload'') (\<lambda>p. get_prop p ''referenceTrack'') of
        Inl x \<Rightarrow> Some (Inl x, tr1)
      | Inr referenceTrack \<Rightarrow>
     (case callReplicateAPI w (Str mastering_model)
             (Obj [(''input_audio'', userTrack), (''reference_audio'', referenceTrack)])
             (REPLICATE_API_KEY e) tr1 of
        None \<Rightarrow> None
      | Some (Inl x, tr2) \<Rightarrow> Some (Inl x, tr2)
      | Some (Inr audioUrl, tr2) \<Rightarrow>
          Some (Inr (Some \<lparr>statusCode = 200,
             body = stringify (Obj [(''type'', Str ''hybrid-mastering''),
                                    (''brief'', brief),
                                    (''audioUrl'', audioUrl)])\<rparr>), tr2))))))"

text \<open>\<^verbatim>\<open>const { toolId, toolType, inputs } = body\<close>\<close>

definition destructure :: "jsval \<Rightarrow> js_error + jsval \<times> jsval \<times> jsval" where
  "destructure b =
     (if b = Null then
        Inl (TypeError (''Cannot destructure property '' @ quoted ''toolId'' @ '' of ''
          @ quoted ''body'' @ '' as it is null.''))
      else if b = Undefined then
        Inl (TypeError (''Cannot destructure property '' @ quoted ''toolId'' @ '' of ''
          @ quoted ''body'' @ '' as it is undefined.''))
      else
        bind_err (get_prop b ''toolId'') (\<lambda>toolId.
        bind_err (get_prop b ''toolType'') (\<lambda>toolType.
        bind_err (get_prop b ''inputs'') (\<lambda>inputs.
        Inr (toolId, toolType, inputs)))))"

text \<open>The body of the \<^verbatim>\<open>try\<close> block.\<close>

definition handler_try ::
  "world \<Rightarrow> env \<Rightarrow> event \<Rightarrow> trace \<Rightarrow> ((js_error + response option) \<times> trace) option" where
  "handler_try w e ev tr =
     (case parsed_body ev of
        Inl x \<Rightarrow> Some (Inl x, tr)
      | Inr b \<Rightarrow>
     (case destructure b of
        Inl x \<Rightarrow> Some (Inl x, tr)
      | Inr (toolId, toolType, inputs) \<Rightarrow>
     (case startsWith ''toolType'' toolType ''gemini'' of
        Inl x \<Rightarrow> Some (Inl x, tr)
      | Inr True \<Rightarrow> Some (handler_gemini w e toolType inputs tr)
      | Inr False \<Rightarrow>
     (case startsWith ''toolType'' toolType ''replicate'' of
        Inl x \<Rightarrow> Some (Inl x, tr)
      | Inr True \<Rightarrow> handler_replicate w e toolType inputs tr
      | Inr False \<Rightarrow>
          if toolType = Str ''hybrid-mastering'' then handler_hybrid w e inputs tr
          else Some (Inr None, tr)))))"

text \<open>The \<^verbatim>\<open>catch\<close> clause: any error becomes a 500 response carrying its message.\<close>

fun catch :: "(js_error + response option) \<times> trace \<Rightarrow> response option \<times> trace" where
  "catch (Inl error, tr) =
     (Some \<lparr>statusCode = 500, body = stringify (Obj [(''error'', Str (message error))])\<rparr>, tr)"
| "catch (Inr r, tr) = (r, tr)"

text \<open>
  The handler: \<open>None\<close> when the invocation never returns; otherwise what it returns
  (\<open>None\<close> for \<^verbatim>\<open>undefined\<close>, \<open>Some\<close> of a response object) and the requests made.
\<close>

definition handler :: "world \<Rightarrow> env \<Rightarrow> event \<Rightarrow> trace \<Rightarrow> (response option \<times> trace) option" where
  "handler w e ev tr =
     (if httpMethod ev \<noteq> ''POST'' then
        Some (Some \<lparr>statusCode = 405,
                body = stringify (Obj [(''error'', Str ''Method Not Allowed'')])\<rparr>, tr)
      else map_option catch (handler_try w e ev tr))"

section \<open>Vocabulary of the properties\<close>

text \<open>
  The definitions of this section are not code of the repository: they name the situations
  the properties speak about.
\<close>

text \<open>A POST request whose JSON body carries the string \<open>t\<close> as \<^verbatim>\<open>toolType\<close> and the
  value \<open>inputs\<close> as \<^verbatim>\<open>inputs\<close> (\<open>Undefined\<close> when the body has none).\<close>

definition tool_request :: "event \<Rightarrow> string \<Rightarrow> jsval \<Rightarrow> bool" where
  "tool_request ev t inputs =
     (httpMethod ev = ''POST'' \<and>
      (case parsed_body ev of
         Inl x \<Rightarrow> False
       | Inr b \<Rightarrow> get_prop b ''toolType'' = Inr (Str t) \<and> get_prop b ''inputs'' = Inr inputs))"

text \<open>The job body carries one of the two terminal statuses.\<close>

definition terminal :: "jsval \<Rightarrow> bool" where
  "terminal p =
     (get_prop p ''status'' = Inr (Str ''succeeded'') \<or>
      get_prop p ''status'' = Inr (Str ''failed''))"

text \<open>The job body can be read and its status is not terminal: the loop goes on.\<close>

definition pending :: "jsval \<Rightarrow> bool" where
  "pending p =
     (case get_prop p ''status'' of
        Inl x \<Rightarrow> False
      | Inr st \<Rightarrow> st \<noteq> Str ''succeeded'' \<and> st \<noteq> Str ''failed'')"

text \<open>The \<^verbatim>\<open>id\<close> of a job body.\<close>

definition prediction_id :: "jsval \<Rightarrow> jsval" where
  "prediction_id p = (case get_prop p ''id'' of Inl x \<Rightarrow> Undefined | Inr i \<Rightarrow> i)"

text \<open>A value that is no object and no array: a string, as the data model has the id of a
  job, a number, a boolean, \<^verbatim>\<open>null\<close> or \<^verbatim>\<open>undefined\<close>.\<close>

fun primitive :: "jsval \<Rightarrow> bool" where
  "primitive (Arr xs) = False"
| "primitive (Obj kvs) = False"
| "primitive v = True"

text \<open>A job body with a non-terminal status and a primitive id: the job is polled again.\<close>

definition pollable :: "jsval \<Rightarrow> bool" where
  "pollable p = (pending p \<and> primitive (prediction_id p))"

text \<open>The id of a job body as the poll URL interpolates it.\<close>

definition id_text :: "jsval \<Rightarrow> string" where
  "id_text p = (case to_string (prediction_id p) of Inl x \<Rightarrow> [] | Inr s \<Rightarrow> s)"

text \<open>A poll response that is HTTP 200 with a non-terminal status (and a primitive id).\<close>

definition keeps_polling :: "js_error + http_response \<Rightarrow> bool" where
  "keeps_polling r =
     (case r of
        Inl x \<Rightarrow> False
      | Inr resp \<Rightarrow>
          status resp = 200 \<and> (case json resp of Inl x \<Rightarrow> False | Inr p \<Rightarrow> pollable p))"

text \<open>A poll response that carries a terminal status or a non-200 HTTP status.\<close>

definition ends_polling :: "js_error + http_response \<Rightarrow> bool" where
  "ends_polling r =
     (case r of
        Inl x \<Rightarrow> False
      | Inr resp \<Rightarrow>
          status resp \<noteq> 200 \<or> (case json resp of Inl x \<Rightarrow> False | Inr p \<Rightarrow> terminal p))"

text \<open>The four requests the program makes.\<close>

definition generate_request :: "string option \<Rightarrow> jsval \<Rightarrow> request" where
  "generate_request apiKey prompt =
     \<lparr>url = ''https://generativelanguage.googleapis.com/v1beta/models/gemini-1.5-flash-latest:generateContent?key=''
             @ key_text apiKey,
      http_method = ''POST'',
      headers = [(''Content-Type'', ''application/json'')],
      req_body = stringify (Obj [(''contents'', Arr [Obj [(''parts'', Arr [Obj [(''text'', prompt)]])]])])\<rparr>"

definition imagen_request :: "string option \<Rightarrow> jsval \<Rightarrow> request" where
  "imagen_request apiKey prompt =
     \<lparr>url = ''https://generativelanguage.googleapis.com/v1beta/models/imagen-3.0-generate-002:predict?key=''
             @ key_text apiKey,
      http_method = ''POST'',
      headers = [(''Content-Type'', ''application/json'')],
      req_body = stringify (Obj [(''instances'', Arr [Obj [(''prompt'', prompt)]]),
                                 (''parameters'', Obj [(''sampleCount'', Num ''1'')])])\<rparr>"

definition submit_request :: "string option \<Rightarrow> jsval \<Rightarrow> jsval \<Rightarrow> request" where
  "submit_request apiKey model input =
     \<lparr>url = ''https://api.replicate.com/v1/predictions'',
      http_method = ''POST'',
      headers = [(''Authorization'', ''Token '' @ key_text apiKey),
                 (''Content-Type'', ''application/json'')],
      req_body = stringify (Obj [(''version'', model), (''input'', input)])\<rparr>"

definition status_request :: "string option \<Rightarrow> string \<Rightarrow> request" where
  "status_request apiKey ident =
     \<lparr>url = ''https://api.replicate.com/v1/predictions/'' @ ident,
      http_method = ''GET'',
      headers = [(''Authorization'', ''Token '' @ key_text apiKey)],
      req_body = Undefined\<rparr>"

text \<open>A fetch of the job-status endpoint.\<close>

definition is_status_fetch :: "request \<Rightarrow> bool" where
  "is_status_fetch r =
     (http_method r = ''GET'' \<and> prefix ''https://api.replicate.com/v1/predictions/'' (url r))"

text \<open>The message of the error thrown for a failed job whose error reads \<open>err\<close>.\<close>

definition failed_message :: "string \<Rightarrow> string" where
  "failed_message err = ''La tarea en Replicate fall'' @ o_acute @ '': '' @ err"

text \<open>The two kinds of response object the handler builds after the method check.\<close>

definition error_response :: "string \<Rightarrow> response" where
  "error_response m = \<lparr>statusCode = 500, body = Obj [(''error'', Str m)]\<rparr>"

definition data_response :: "jsval \<Rightarrow> jsval \<Rightarrow> response" where
  "data_response toolType d =
     \<lparr>statusCode = 200, body = stringify (Obj [(''type'', toolType), (''data'', d)])\<rparr>"

text \<open>What the plain prediction branch makes of the outcome of the adapter.\<close>

fun reply_with ::
  "jsval \<Rightarrow> (js_error + jsval) \<times> trace \<Rightarrow> (js_error + response option) \<times> trace" where
  "reply_with toolType (Inl x, tr) = (Inl x, tr)"
| "reply_with toolType (Inr output, tr) = (Inr (Some (data_response toolType output)), tr)"

text \<open>The status code of the response an invocation returns, if it returns one.\<close>

fun returned_status :: "(response option \<times> trace) option \<Rightarrow> nat option" where
  "returned_status None = None"
| "returned_status (Some (None, tr)) = None"
| "returned_status (Some (Some r, tr)) = Some (statusCode r)"

text \<open>
  The job bodies an invocation of the adapter sees, counted from the submit call made when
  \<open>start\<close> requests have gone before: stage 0 is the submit response, which has to be
  HTTP 201, and stage \<open>i > 0\<close> is the \<open>i\<close>-th poll, which has to be HTTP 200. A
  stage is pending when its job body is one after which the job is polled again.
\<close>

definition stage_is :: "world \<Rightarrow> nat \<Rightarrow> nat \<Rightarrow> jsval \<Rightarrow> bool" where
  "stage_is w start i p =
     (case w (start + i) of
        Inl x \<Rightarrow> False
      | Inr r \<Rightarrow> status r = (if i = 0 then 201 else 200) \<and> json r = Inr p)"

definition stage_pending :: "world \<Rightarrow> nat \<Rightarrow> nat \<Rightarrow> bool" where
  "stage_pending w start i =
     (case w (start + i) of
        Inl x \<Rightarrow> False
      | Inr r \<Rightarrow>
          status r = (if i = 0 then 201 else 200) \<and>
          (case json r of Inl x \<Rightarrow> False | Inr p \<Rightarrow> pollable p))"

text \<open>What the hybrid branch reads from \<^verbatim>\<open>inputs\<close>: \<^verbatim>\<open>reference_audio\<close>,
  \<^verbatim>\<open>userTrack\<close> and \<^verbatim>\<open>referenceTrack\<close> of \<^verbatim>\<open>inputs.replicate_payload\<close>.\<close>

definition hybrid_args :: "jsval \<Rightarrow> js_error + jsval \<times> jsval \<times> jsval" where
  "hybrid_args inputs =
     bind_err (get_prop inputs ''replicate_payload'') (\<lambda>p.
     bind_err (get_prop p ''reference_audio'') (\<lambda>reference_audio.
     bind_err (get_prop p ''userTrack'') (\<lambda>userTrack.
     bind_err (get_prop p ''referenceTrack'') (\<lambda>referenceTrack.
     Inr (reference_audio, userTrack, referenceTrack)))))"

section \<open>Concrete scenarios\<close>

definition reply :: "nat \<Rightarrow> jsval \<Rightarrow> js_error + http_response" where
  "reply s j = Inr \<lparr>status = s, json = Inr j\<rparr>"

definition job :: "string \<Rightarrow> jsval" where
  "job st = Obj [(''id'', Str ''j1''), (''status'', Str st)]"

definition keys :: env where
  "keys = \<lparr>GEMINI_API_KEY = Some ''g-key'', REPLICATE_API_KEY = Some ''r-key''\<rparr>"

definition post :: "string \<Rightarrow> jsval \<Rightarrow> event" where
  "post t inputs =
     \<lparr>httpMethod = ''POST'',
      parsed_body = Inr (Obj [(''toolId'', Str ''t1''), (''toolType'', Str t), (''inputs'', inputs)])\<rparr>"

definition offline :: world where
  "offline n = Inl (FetchError ''network unreachable'')"

definition get_event :: event where
  "get_event = \<lparr>httpMethod = ''GET'', parsed_body = Inr Null\<rparr>"

definition replicate_inputs :: jsval where
  "replicate_inputs =
     Obj [(''model'', Str ''m:1''), (''replicate_payload'', Obj [(''userTrack'', Str ''u.wav'')])]"

definition two_polls :: world where
  "two_polls n =
     (if n = 0 then reply 201 (job ''starting'')
      else if n = 1 then reply 200 (job ''processing'')
      else reply 200 (Obj [(''id'', Str ''j1''), (''status'', Str ''succeeded''),
                           (''output'', Str ''result-url'')]))"

definition always_processing :: world where
  "always_processing n = reply 200 (job ''processing'')"

definition out_of_memory :: world where
  "out_of_memory n =
     (if n = 0 then reply 201 (job ''starting'')
      else if n = 1 then reply 200 (job ''processing'')
      else reply 200 (Obj [(''id'', Str ''j1''), (''status'', Str ''failed''),
                           (''error'', Str ''OOM'')]))"

definition generated :: "string \<Rightarrow> jsval" where
  "generated t =
     Obj [(''candidates'', Arr [Obj [(''content'', Obj [(''parts'', Arr [Obj [(''text'', Str t)]])])]])]"

definition brief_then_stuck :: world where
  "brief_then_stuck n =
     (if n = 0 then reply 200 (generated ''plan'')
      else if n = 1 then reply 201 (job ''starting'')
      else reply 200 (job ''processing''))"

definition quota_exceeded :: world where
  "quota_exceeded n = reply 429 (Obj [(''error'', Obj [(''message'', Str ''quota exceeded'')])])"

definition text_then_image :: world where
  "text_then_image n =
     (if n = 0 then reply 200 (generated ''A red fox. **Tip de Oro: use soft light'')
      else reply 200 (Obj [(''predictions'', Arr [Obj [(''bytesBase64Encoded'', Str ''aGk='')]])]))"

definition hybrid_inputs :: jsval where
  "hybrid_inputs =
     Obj [(''replicate_payload'',
           Obj [(''userTrack'', Str ''u.wav''), (''referenceTrack'', Str ''r.wav'')])]"

definition brief_then_refused :: world where
  "brief_then_refused n =
     (if n = 0 then reply 200 (generated ''plan'')
      else reply 402 (Obj [(''detail'', Str ''payment required'')]))"

definition brief_then_audio :: world where
  "brief_then_audio n =
     (if n = 0 then reply 200 (generated ''plan'')
      else reply 201 (Obj [(''id'', Str ''j1''), (''status'', Str ''succeeded''),
                           (''output'', Str ''audio-url'')]))"

definition brief_then_oom :: world where
  "brief_then_oom n = (if n = 0 then reply 200 (generated ''plan'') else out_of_memory (n - 1))"

definition no_message :: world where
  "no_message n = reply 500 (Obj [])"

definition text_then_nothing :: world where
  "text_then_nothing n =
     (if n = 0 then reply 200 (generated ''A red fox. **Tip de Oro: use soft light'')
      else reply 200 (Obj [(''predictions'', Arr [])]))"

definition empty_message :: world where
  "empty_message n = reply 429 (Obj [(''error'', Obj [(''message'', Str [])])])"

section \<open>The value operations on examples\<close>

lemma to_string_examples:
  "to_string (Str ''j1'') = Inr ''j1''"
  "to_string Undefined = Inr ''undefined''"
  "to_string (Obj [(''a'', Num ''1'')]) = Inr ''[object Object]''"
  "to_string (Obj [(''toString'', Num ''1'')]) =
     Inl (TypeError ''Cannot convert object to primitive value'')"
  "to_string (Arr [Num ''1'', Null, Arr [Str ''a'', Bool True]]) = Inr ''1,,a,true''"
  "to_string (Arr [Str ''a'', Obj [(''toString'', Null)]]) =
     Inl (TypeError ''Cannot convert object to primitive value'')"
  by simp_all

lemma stringify_examples:
  "stringify (Obj [(''type'', Str ''t''), (''data'', Undefined)]) = Obj [(''type'', Str ''t'')]"
  "stringify (Obj [(''a'', Arr [Undefined, Num ''Infinity'', Num ''1.5''])]) =
     Obj [(''a'', Arr [Null, Null, Num ''1.5''])]"
  by simp_all

lemma access_examples:
  "get_prop (Obj [(''status'', Str ''failed'')]) ''status'' = Inr (Str ''failed'')"
  "get_prop (Obj []) ''status'' = Inr Undefined"
  "get_prop (Str ''abc'') ''status'' = Inr Undefined"
  "get_prop Null ''status'' =
     Inl (TypeError (''Cannot read properties of null (reading '' @ quoted ''status'' @ '')''))"
  "opt_prop Null ''message'' = Inr Undefined"
  "get_index0 (Arr []) = Inr Undefined"
  "get_index0 (Str ''abc'') = Inr (Str ''a'')"
  by simp_all

lemma before_sep_examples:
  "before_sep ''**'' ''ab**cd**ef'' = ''ab''"
  "before_sep ''**'' ''abcd'' = ''abcd''"
  "before_sep ''**'' [] = []"
  by simp_all

section \<open>Properties of the poll loop\<close>

lemma pending_get_id: "pending p \<Longrightarrow> get_prop p ''id'' = Inr (prediction_id p)"
  by (cases p) (simp_all add: pending_def prediction_id_def)

lemma primitive_to_string: "primitive v \<Longrightarrow> \<exists>s. to_string v = Inr s"
  by (cases v) simp_all

lemma pollable_id_text: "pollable p \<Longrightarrow> to_string (prediction_id p) = Inr (id_text p)"
  using primitive_to_string[of "prediction_id p"] by (auto simp: pollable_def id_text_def)

lemma keeps_pollingE:
  assumes "keeps_polling x"
  obtains r p1 where "x = Inr r" "status r = 200" "json r = Inr p1" "pollable p1"
  using assms by (auto simp: keeps_polling_def split: sum.splits)

subsection \<open>The two copies of the loop agree\<close>

lemma handler_poll_below:
  assumes "handler_poll w e p tr = Some y"
  shows "callReplicateAPI_poll w (REPLICATE_API_KEY e) p tr = Some y"
proof (rule handler_poll.raw_induct
    [where P = "\<lambda>w e p tr y. callReplicateAPI_poll w (REPLICATE_API_KEY e) p tr = Some y",
     OF _ assms], goal_cases)
  case (1 f w e p tr y)
  show ?case
    apply (subst callReplicateAPI_poll.simps)
    using 1(2) by (auto split: sum.splits prod.splits if_splits intro: 1(1))
qed

lemma handler_poll_above_aux:
  assumes "callReplicateAPI_poll w k p tr = Some y"
  shows "\<forall>e::env. k = REPLICATE_API_KEY e \<longrightarrow> handler_poll w e p tr = Some y"
proof (rule callReplicateAPI_poll.raw_induct
    [where P = "\<lambda>w k p tr y. \<forall>e::env. k = REPLICATE_API_KEY e \<longrightarrow> handler_poll w e p tr = Some y",
     OF _ assms], goal_cases)
  case (1 f w k p tr y)
  show ?case
  proof (intro allI impI)
    fix e :: env
    assume k: "k = REPLICATE_API_KEY e"
    show "handler_poll w e p tr = Some y"
      apply (subst handler_poll.simps)
      using 1(2) k by (auto split: sum.splits prod.splits if_splits intro: 1(1)[rule_format])
  qed
qed

lemma handler_poll_eq:
  "handler_poll w e p tr = callReplicateAPI_poll w (REPLICATE_API_KEY e) p tr"
proof (cases "callReplicateAPI_poll w (REPLICATE_API_KEY e) p tr")
  case None
  then show ?thesis
    using handler_poll_below [of w e p tr] by (cases "handler_poll w e p tr") auto
next
  case (Some y)
  then show ?thesis using handler_poll_above_aux [of w "REPLICATE_API_KEY e" p tr y] by simp
qed

subsection \<open>One round of the loop\<close>

lemma poll_terminal:
  "terminal p \<Longrightarrow> callReplicateAPI_poll w k p tr = Some (Inr p, tr)"
  by (subst callReplicateAPI_poll.simps) (auto simp: terminal_def)

lemma poll_continue:
  assumes "pollable p" "w (length tr) = Inr r" "status r = 200" "json r = Inr p1"
  shows "callReplicateAPI_poll w k p tr =
         callReplicateAPI_poll w k p1 (tr @ [status_request k (id_text p)])"
proof -
  from assms(1) have pend: "pending p" by (simp add: pollable_def)
  show ?thesis
    apply (subst callReplicateAPI_poll.simps)
    using assms pend pending_get_id[OF pend] pollable_id_text[OF assms(1)]
    by (auto simp: pending_def fetch_def status_request_def split: sum.splits)
qed

text \<open>A job that is not terminal and whose id cannot be rendered ends the loop with the
  \<^verbatim>\<open>TypeError\<close> of the template literal, before any request.\<close>

lemma poll_unrendered_id:
  assumes "pending p" "to_string (prediction_id p) = Inl x"
  shows "callReplicateAPI_poll w k p tr = Some (Inl x, tr)"
  apply (subst callReplicateAPI_poll.simps)
  using assms pending_get_id[OF assms(1)]
  by (auto simp: pending_def split: sum.splits)

text \<open>A round either ends the loop or hands over to the next round after an HTTP 200 poll.\<close>

lemma poll_round:
  "callReplicateAPI_poll w k p tr \<noteq> None \<or>
   (\<exists>r p1 q. w (length tr) = Inr r \<and> status r = 200 \<and> json r = Inr p1 \<and>
      callReplicateAPI_poll w k p tr = callReplicateAPI_poll w k p1 (tr @ [q]))"
proof (cases "get_prop p ''status''")
  case (Inl x)
  then show ?thesis by (subst callReplicateAPI_poll.simps) simp
next
  case st: (Inr st)
  show ?thesis
  proof (cases "st \<noteq> Str ''succeeded'' \<and> st \<noteq> Str ''failed''")
    case False
    with st show ?thesis by (subst callReplicateAPI_poll.simps) auto
  next
    case True
    show ?thesis
    proof (cases "get_prop p ''id''")
      case (Inl x)
      with st True show ?thesis by (subst callReplicateAPI_poll.simps) simp
    next
      case ident: (Inr ident)
      show ?thesis
      proof (cases "to_string ident")
        case (Inl x)
        with st True ident show ?thesis by (subst callReplicateAPI_poll.simps) simp
      next
        case shown: (Inr u)
        show ?thesis
        proof (cases "w (length tr)")
          case (Inl x)
          with st True ident shown show ?thesis
            by (subst callReplicateAPI_poll.simps) (simp add: fetch_def)
        next
          case r: (Inr r)
          show ?thesis
          proof (cases "json r")
            case (Inl x)
            with st True ident shown r show ?thesis
              by (subst callReplicateAPI_poll.simps) (simp add: fetch_def)
          next
            case p1: (Inr p1)
            show ?thesis
            proof (cases "status r = 200")
              case False
              with st True ident shown r p1 show ?thesis
                by (subst callReplicateAPI_poll.simps) (simp add: fetch_def split: sum.splits)
            next
              case ok: True
              have "callReplicateAPI_poll w k p tr =
                    callReplicateAPI_poll w k p1 (tr @ [status_request k u])"
                apply (subst callReplicateAPI_poll.simps)
                using st True ident shown r p1 ok
                by (simp add: fetch_def status_request_def)
              with r p1 ok show ?thesis by blast
            qed
          qed
        qed
      qed
    qed
  qed
qed

subsection \<open>Termination and non-termination\<close>

lemma poll_returns:
  "ends_polling (w (length tr + n)) \<Longrightarrow> callReplicateAPI_poll w k p tr \<noteq> None"
proof (induction n arbitrary: p tr)
  case 0
  from poll_round[of w k p tr] show ?case
  proof
    assume "\<exists>r p1 q. w (length tr) = Inr r \<and> status r = 200 \<and> json r = Inr p1 \<and>
      callReplicateAPI_poll w k p tr = callReplicateAPI_poll w k p1 (tr @ [q])"
    then obtain r p1 q where r: "w (length tr) = Inr r" "status r = 200" "json r = Inr p1"
      and step: "callReplicateAPI_poll w k p tr = callReplicateAPI_poll w k p1 (tr @ [q])"
      by blast
    from 0 r have "terminal p1" by (simp add: ends_polling_def)
    then show ?thesis by (simp add: step poll_terminal)
  qed
next
  case (Suc n)
  from poll_round[of w k p tr] show ?case
  proof
    assume "\<exists>r p1 q. w (length tr) = Inr r \<and> status r = 200 \<and> json r = Inr p1 \<and>
      callReplicateAPI_poll w k p tr = callReplicateAPI_poll w k p1 (tr @ [q])"
    then obtain r p1 q where
      step: "callReplicateAPI_poll w k p tr = callReplicateAPI_poll w k p1 (tr @ [q])"
      by blast
    from Suc.prems have "ends_polling (w (length (tr @ [q]) + n))" by simp
    from Suc.IH[OF this] show ?thesis by (simp add: step)
  qed
qed

lemma poll_runs_forever_aux:
  assumes "callReplicateAPI_poll w k p tr = Some y"
  shows "\<not> ((\<forall>n. keeps_polling (w (length tr + n))) \<and> pollable p)"
proof (rule callReplicateAPI_poll.raw_induct
    [where P = "\<lambda>w k p tr y. \<not> ((\<forall>n. keeps_polling (w (length tr + n))) \<and> pollable p)",
     OF _ assms], goal_cases)
  case (1 f w k p tr y)
  show ?case
  proof
    assume a: "(\<forall>n. keeps_polling (w (length tr + n))) \<and> pollable p"
    then have "keeps_polling (w (length tr + 0))" by blast
    then obtain r p1 where
      r: "w (length tr) = Inr r" "status r = 200" "json r = Inr p1" "pollable p1"
      by (auto elim: keeps_pollingE)
    from a have pend: "pending p" by (simp add: pollable_def)
    then have st: "\<exists>st. get_prop p ''status'' = Inr st \<and> st \<noteq> Str ''succeeded''
        \<and> st \<noteq> Str ''failed''"
      by (auto simp: pending_def split: sum.splits)
    from pend have ident: "get_prop p ''id'' = Inr (prediction_id p)"
      by (simp add: pending_get_id)
    from a have shown: "to_string (prediction_id p) = Inr (id_text p)"
      by (simp add: pollable_id_text)
    let ?tr1 = "tr @ [status_request k (id_text p)]"
    from 1(2) st ident shown r have "f w k p1 ?tr1 = Some y"
      by (auto simp: fetch_def status_request_def)
    from 1(1)[OF this] have "\<not> ((\<forall>n. keeps_polling (w (length ?tr1 + n))) \<and> pollable p1)" .
    moreover have "\<forall>n. keeps_polling (w (length ?tr1 + n))"
    proof
      fix n from a have "keeps_polling (w (length tr + Suc n))" by blast
      then show "keeps_polling (w (length ?tr1 + n))" by simp
    qed
    ultimately show False using r(4) by simp
  qed
qed

lemma poll_runs_forever:
  assumes "\<forall>n. keeps_polling (w (length tr + n))" "pollable p"
  shows "callReplicateAPI_poll w k p tr = None"
  using poll_runs_forever_aux [of w k p tr] assms
  by (cases "callReplicateAPI_poll w k p tr") auto

subsection \<open>A job that reaches a terminal state after any number of rounds\<close>

lemma poll_reaches_terminal:
  assumes "pollable p" "\<forall>i<n. keeps_polling (w (length tr + i))"
    "w (length tr + n) = Inr r" "status r = 200" "json r = Inr pf" "terminal pf"
  shows "\<exists>tr1. callReplicateAPI_poll w k p tr = Some (Inr pf, tr1) \<and> length tr1 = length tr + Suc n
     \<and> (\<forall>q\<in>set (drop (length tr) tr1). is_status_fetch q) \<and> take (length tr) tr1 = tr"
  using assms
proof (induction n arbitrary: p tr)
  case 0
  then show ?case
    using poll_continue[of p w tr r pf k]
    by (simp add: poll_terminal is_status_fetch_def status_request_def)
next
  case (Suc n)
  from Suc.prems(2) have "keeps_polling (w (length tr + 0))" by blast
  then obtain r1 p1 where
    r1: "w (length tr) = Inr r1" "status r1 = 200" "json r1 = Inr p1" "pollable p1"
    by (auto elim: keeps_pollingE)
  let ?tr1 = "tr @ [status_request k (id_text p)]"
  have a: "\<forall>i<n. keeps_polling (w (length ?tr1 + i))"
  proof (intro allI impI)
    fix i assume "i < n"
    then have "keeps_polling (w (length tr + Suc i))"
      using Suc.prems(2)[rule_format, of "Suc i"] by simp
    then show "keeps_polling (w (length ?tr1 + i))" by simp
  qed
  have b: "w (length ?tr1 + n) = Inr r" using Suc.prems(3) by simp
  from Suc.IH[OF r1(4) a b Suc.prems(4,5,6)]
  obtain tr2 where tr2: "callReplicateAPI_poll w k p1 ?tr1 = Some (Inr pf, tr2)"
    "length tr2 = length ?tr1 + Suc n"
    "\<forall>q\<in>set (drop (length ?tr1) tr2). is_status_fetch q"
    "take (length ?tr1) tr2 = ?tr1"
    by blast
  have "callReplicateAPI_poll w k p tr = Some (Inr pf, tr2)"
    using poll_continue[of p w tr r1 p1 k] Suc.prems(1) r1 tr2(1) by simp
  moreover have "length tr2 = length tr + Suc (Suc n)" using tr2(2) by simp
  moreover have "take (length tr) tr2 = tr"
  proof -
    have "take (length tr) tr2 = take (length tr) (take (length ?tr1) tr2)" by (simp add: min_def)
    also have "\<dots> = tr" by (simp only: tr2(4)) simp
    finally show ?thesis .
  qed
  moreover have "\<forall>q\<in>set (drop (length tr) tr2). is_status_fetch q"
  proof -
    have "tr2 = ?tr1 @ drop (length ?tr1) tr2"
      using tr2(4) append_take_drop_id[of "length ?tr1" tr2] by simp
    then have "drop (length tr) tr2 = status_request k (id_text p) # drop (length ?tr1) tr2"
      by (metis append.assoc append_Cons append_Nil append_eq_conv_conj)
    with tr2(3) show ?thesis by (simp add: is_status_fetch_def status_request_def)
  qed
  ultimately show ?case by blast
qed

section \<open>Properties of the router\<close>

lemma tool_requestE:
  assumes "tool_request ev t inputs"
  obtains b where "httpMethod ev = ''POST''" "parsed_body ev = Inr b"
    "get_prop b ''toolType'' = Inr (Str t)" "get_prop b ''inputs'' = Inr inputs"
  using assms by (auto simp: tool_request_def split: sum.splits)

lemma destructure_readable:
  assumes "get_prop b ''toolType'' = Inr t" "get_prop b ''inputs'' = Inr inputs"
  shows "\<exists>toolId. destructure b = Inr (toolId, t, inputs)"
  using assms by (cases b) (simp_all add: destructure_def bind_err_def)

lemma replicate_not_gemini: "prefix ''replicate'' t \<Longrightarrow> \<not> prefix ''gemini'' t"
  by (auto simp: prefix_def)

lemma handler_gemini_branch:
  assumes "tool_request ev t inputs" "prefix ''gemini'' t"
  shows "handler w e ev tr = Some (catch (handler_gemini w e (Str t) inputs tr))"
proof -
  from assms(1) obtain b where b: "httpMethod ev = ''POST''" "parsed_body ev = Inr b"
    "get_prop b ''toolType'' = Inr (Str t)" "get_prop b ''inputs'' = Inr inputs"
    by (rule tool_requestE)
  from destructure_readable[OF b(3,4)] obtain toolId where
    "destructure b = Inr (toolId, Str t, inputs)" by blast
  with b assms(2) show ?thesis by (simp add: handler_def handler_try_def)
qed

lemma handler_replicate_branch:
  assumes "tool_request ev t inputs" "prefix ''replicate'' t"
  shows "handler w e ev tr = map_option catch (handler_replicate w e (Str t) inputs tr)"
proof -
  from assms(1) obtain b where b: "httpMethod ev = ''POST''" "parsed_body ev = Inr b"
    "get_prop b ''toolType'' = Inr (Str t)" "get_prop b ''inputs'' = Inr inputs"
    by (rule tool_requestE)
  from destructure_readable[OF b(3,4)] obtain toolId where
    "destructure b = Inr (toolId, Str t, inputs)" by blast
  with b assms(2) replicate_not_gemini[OF assms(2)] show ?thesis
    by (simp add: handler_def handler_try_def)
qed

lemma handler_hybrid_branch:
  assumes "tool_request ev ''hybrid-mastering'' inputs"
  shows "handler w e ev tr = map_option catch (handler_hybrid w e inputs tr)"
proof -
  from assms(1) obtain b where b: "httpMethod ev = ''POST''" "parsed_body ev = Inr b"
    "get_prop b ''toolType'' = Inr (Str ''hybrid-mastering'')" "get_prop b ''inputs'' = Inr inputs"
    by (rule tool_requestE)
  from destructure_readable[OF b(3,4)] obtain toolId where
    "destructure b = Inr (toolId, Str ''hybrid-mastering'', inputs)" by blast
  with b show ?thesis
    by (simp add: handler_def handler_try_def)
qed

lemma hybrid_args_Inr:
  assumes "hybrid_args inputs = Inr (ra, ut, rt)"
  shows "\<exists>p. get_prop inputs ''replicate_payload'' = Inr p \<and> get_prop p ''reference_audio'' = Inr ra
     \<and> get_prop p ''userTrack'' = Inr ut \<and> get_prop p ''referenceTrack'' = Inr rt"
  using assms by (auto simp: hybrid_args_def bind_err_def split: sum.splits)

lemma hybrid_args_Inl:
  assumes "hybrid_args inputs = Inl x"
  shows "bind_err (get_prop inputs ''replicate_payload'') (\<lambda>p. get_prop p ''reference_audio'') = Inl x"
proof (cases "get_prop inputs ''replicate_payload''")
  case (Inl y)
  with assms show ?thesis by (simp add: hybrid_args_def bind_err_def)
next
  case (Inr p)
  with assms show ?thesis
    by (cases p) (simp_all add: hybrid_args_def bind_err_def)
qed

lemma handler_hybrid_unreadable:
  "hybrid_args inputs = Inl x \<Longrightarrow> handler_hybrid w e inputs tr = Some (Inl x, tr)"
  by (simp add: handler_hybrid_def hybrid_args_Inl)

lemma handler_hybrid_readable:
  assumes "hybrid_args inputs = Inr (ra, ut, rt)"
  shows "handler_hybrid w e inputs tr =
     (case callGeminiAPI w (Str (briefPrompt ra)) (GEMINI_API_KEY e) tr of
        (Inl x, tr1) \<Rightarrow> Some (Inl x, tr1)
      | (Inr brief, tr1) \<Rightarrow>
          (case callReplicateAPI w (Str mastering_model)
                  (Obj [(''input_audio'', ut), (''reference_audio'', rt)])
                  (REPLICATE_API_KEY e) tr1 of
             None \<Rightarrow> None
           | Some (Inl x, tr2) \<Rightarrow> Some (Inl x, tr2)
           | Some (Inr audioUrl, tr2) \<Rightarrow>
               Some (Inr (Some \<lparr>statusCode = 200,
                  body = stringify (Obj [(''type'', Str ''hybrid-mastering''),
                                         (''brief'', brief),
                                         (''audioUrl'', audioUrl)])\<rparr>), tr2)))"
proof -
  from hybrid_args_Inr[OF assms] obtain p where
    "get_prop inputs ''replicate_payload'' = Inr p" "get_prop p ''reference_audio'' = Inr ra"
    "get_prop p ''userTrack'' = Inr ut" "get_prop p ''referenceTrack'' = Inr rt"
    by blast
  then show ?thesis
    unfolding handler_hybrid_def by (simp add: bind_err_def split: prod.splits sum.splits)
qed

text \<open>
  \<^bold>\<open>C7.\<close> A request whose method is not POST is answered with status 405 and the body
  \<^verbatim>\<open>{error: "Method Not Allowed"}\<close>, and no provider is called: the trace of requests is
  returned as it was.
\<close>

theorem method_not_allowed:
  "httpMethod ev \<noteq> ''POST'' \<Longrightarrow>
   handler w e ev tr =
     Some (Some \<lparr>statusCode = 405, body = Obj [(''error'', Str ''Method Not Allowed'')]\<rparr>, tr)"
  by (simp add: handler_def)

theorem method_not_allowed_witness:
  "httpMethod get_event \<noteq> ''POST'' \<and>
   handler offline keys get_event [] =
     Some (Some \<lparr>statusCode = 405, body = Obj [(''error'', Str ''Method Not Allowed'')]\<rparr>, [])"
  using method_not_allowed [of get_event offline keys "[]"] by (simp add: get_event_def)

text \<open>
  \<^bold>\<open>C10.\<close> A POST request whose body is valid JSON and whose \<^verbatim>\<open>toolType\<close> is
  \<^verbatim>\<open>null\<close> or missing does not crash the handler: the \<^verbatim>\<open>TypeError\<close> of
  \<^verbatim>\<open>toolType.startsWith\<close> is caught and answered with status 500 and the body
  \<^verbatim>\<open>{error: <message>}\<close>; no provider is called.
\<close>

theorem null_toolType_is_caught:
  assumes "httpMethod ev = ''POST''" "parsed_body ev = Inr b"
    and "get_prop b ''toolType'' = Inr t" "t = Null \<or> t = Undefined"
  shows "startsWith ''toolType'' t ''gemini'' =
           Inl (TypeError (''Cannot read properties of '' @ (if t = Null then ''null'' else ''undefined'')
             @ '' (reading ''
             @ quoted ''startsWith'' @ '')''))
         \<and> handler w e ev tr =
           Some (Some (error_response (''Cannot read properties of ''
             @ (if t = Null then ''null'' else ''undefined'')
             @ '' (reading '' @ quoted ''startsWith'' @ '')'')), tr)"
proof -
  from assms(3) have "b \<noteq> Null" "b \<noteq> Undefined" by auto
  then obtain toolId inputs where d: "destructure b = Inr (toolId, t, inputs)"
    using assms(3) by (cases b) (auto simp: destructure_def bind_err_def)
  from assms(4) show ?thesis
    using assms(1,2) d by (auto simp: handler_def handler_try_def error_response_def)
qed

theorem null_toolType_is_caught_witness:
  "handler offline keys
     \<lparr>httpMethod = ''POST'', parsed_body = Inr (Obj [(''toolId'', Str ''t1''), (''toolType'', Null)])\<rparr> [] =
   Some (Some (error_response (''Cannot read properties of null (reading ''
     @ quoted ''startsWith'' @ '')'')), [])
   \<and> handler offline keys
     \<lparr>httpMethod = ''POST'', parsed_body = Inr (Obj [(''toolId'', Str ''t1'')])\<rparr> [] =
   Some (Some (error_response (''Cannot read properties of undefined (reading ''
     @ quoted ''startsWith'' @ '')'')), [])"
  using null_toolType_is_caught
    [of "\<lparr>httpMethod = ''POST'', parsed_body = Inr (Obj [(''toolId'', Str ''t1''), (''toolType'', Null)])\<rparr>"
        "Obj [(''toolId'', Str ''t1''), (''toolType'', Null)]" Null offline keys "[]"]
    null_toolType_is_caught
    [of "\<lparr>httpMethod = ''POST'', parsed_body = Inr (Obj [(''toolId'', Str ''t1'')])\<rparr>"
        "Obj [(''toolId'', Str ''t1'')]" Undefined offline keys "[]"]
  by simp

text \<open>
  \<^bold>\<open>C5.\<close> As stated the claim does not hold: for a \<^verbatim>\<open>toolType\<close> that no branch
  recognises the handler returns \<^verbatim>\<open>undefined\<close>, not a response object with status 200.
\<close>

theorem unknown_tool_status_counterexample:
  "handler offline keys (post ''midi-export'' Null) [] = Some (None, [])
   \<and> returned_status (handler offline keys (post ''midi-export'' Null) []) \<noteq> Some 200"
  by (simp add: handler_def handler_try_def post_def destructure_def bind_err_def)

text \<open>
  \<^bold>\<open>C5, amended.\<close> For every POST request whose \<^verbatim>\<open>toolType\<close> is a string that does not
  start with \<^verbatim>\<open>gemini\<close>, does not start with \<^verbatim>\<open>replicate\<close> and is not
  \<^verbatim>\<open>hybrid-mastering\<close>, the handler falls through all branches, calls no provider and
  returns \<^verbatim>\<open>undefined\<close>: no response object, so neither a body nor a status code.
\<close>

theorem unknown_tool_falls_through:
  assumes "tool_request ev t inputs"
    and "\<not> prefix ''gemini'' t" "\<not> prefix ''replicate'' t" "t \<noteq> ''hybrid-mastering''"
  shows "handler w e ev tr = Some (None, tr)"
proof -
  from assms(1) obtain b where b: "httpMethod ev = ''POST''" "parsed_body ev = Inr b"
    "get_prop b ''toolType'' = Inr (Str t)" "get_prop b ''inputs'' = Inr inputs"
    by (rule tool_requestE)
  from destructure_readable[OF b(3,4)] obtain toolId where
    "destructure b = Inr (toolId, Str t, inputs)" by blast
  with b assms(2-4) show ?thesis by (simp add: handler_def handler_try_def)
qed

theorem unknown_tool_falls_through_witness:
  "tool_request (post ''midi-export'' Null) ''midi-export'' Null \<and>
   handler offline keys (post ''midi-export'' Null) [] = Some (None, [])"
  using unknown_tool_falls_through [of "post ''midi-export'' Null" "''midi-export''" Null offline keys "[]"]
  by (simp add: tool_request_def post_def)

section \<open>Properties of the prediction adapter\<close>

lemma handler_replicate_eq:
  assumes "get_prop inputs ''model'' = Inr model" "get_prop inputs ''replicate_payload'' = Inr input"
  shows "handler_replicate w e toolType inputs tr =
         map_option (reply_with toolType) (callReplicateAPI w model input (REPLICATE_API_KEY e) tr)"
proof -
  let ?k = "REPLICATE_API_KEY e"
  let ?tr1 = "tr @ [submit_request ?k model input]"
  have f: "fetch w (submit_request ?k model input) tr = (w (length tr), ?tr1)"
    by (simp add: fetch_def)
  show ?thesis
  proof (cases "w (length tr)")
    case (Inl x)
    with assms f show ?thesis
      unfolding handler_replicate_def callReplicateAPI_def submit_request_def[symmetric]
      by simp
  next
    case (Inr r0)
    show ?thesis
    proof (cases "json r0")
      case bad: (Inl x)
      with assms f Inr show ?thesis
        unfolding handler_replicate_def callReplicateAPI_def submit_request_def[symmetric]
        by simp
    next
      case p0: (Inr p0)
      show ?thesis
      proof (cases "status r0 = 201")
        case False
        with assms f Inr p0 show ?thesis
          unfolding handler_replicate_def callReplicateAPI_def submit_request_def[symmetric]
          by (simp split: sum.splits)
      next
        case True
        show ?thesis
        proof (cases "callReplicateAPI_poll w ?k p0 ?tr1")
          case None
          with assms f Inr p0 True show ?thesis
            unfolding handler_replicate_def callReplicateAPI_def submit_request_def[symmetric]
              handler_poll_eq
            by simp
        next
          case (Some y)
          obtain res tr2 where y: "y = (res, tr2)" by (cases y)
          show ?thesis
          proof (cases res)
            case thrown: (Inl x)
            with assms f Inr p0 True Some y show ?thesis
              unfolding handler_replicate_def callReplicateAPI_def submit_request_def[symmetric]
                handler_poll_eq
              by simp
          next
            case final: (Inr pf)
            with assms f Inr p0 True Some y show ?thesis
              unfolding handler_replicate_def callReplicateAPI_def submit_request_def[symmetric]
                handler_poll_eq data_response_def[symmetric]
              by (simp split: sum.splits)
          qed
        qed
      qed
    qed
  qed
qed

lemma callReplicateAPI_polls:
  assumes "w (length tr) = Inr r0" "status r0 = 201" "json r0 = Inr p0"
    and "callReplicateAPI_poll w k p0 (tr @ [submit_request k model input]) = Some (Inr pf, tr2)"
    and "get_prop pf ''status'' = Inr st"
  shows "callReplicateAPI w model input k tr =
         (if st = Str ''failed'' then
            (case get_prop pf ''error'' of
               Inl x \<Rightarrow> Some (Inl x, tr2)
             | Inr err \<Rightarrow>
                 (case to_string err of
                    Inl x \<Rightarrow> Some (Inl x, tr2)
                  | Inr shown \<Rightarrow> Some (Inl (Error (failed_message shown)), tr2)))
          else
            (case get_prop pf ''output'' of
               Inl x \<Rightarrow> Some (Inl x, tr2)
             | Inr output \<Rightarrow> Some (Inr output, tr2)))"
  using assms
  by (simp add: callReplicateAPI_def fetch_def submit_request_def failed_message_def
      split: sum.splits)

lemma callReplicateAPI_stuck:
  assumes "w (length tr) = Inr r0" "status r0 = 201" "json r0 = Inr p0"
    and "callReplicateAPI_poll w k p0 (tr @ [submit_request k model input]) = None"
  shows "callReplicateAPI w model input k tr = None"
  using assms
  by (simp add: callReplicateAPI_def fetch_def submit_request_def)

text \<open>
  \<^bold>\<open>C4.\<close> The prediction logic written out in the router's \<^verbatim>\<open>replicate\<close> branch and the
  helper \<^verbatim>\<open>callReplicateAPI\<close> behave alike: for every stream of provider responses, given
  the model and the payload the branch reads from \<^verbatim>\<open>inputs\<close>, the branch makes the same
  requests and ends the same way as the helper called with them and with the same key. It
  throws the same error when the helper throws, returns the helper's output wrapped as
  \<^verbatim>\<open>{type, data}\<close> with status 200 when the helper returns, and does not return when the
  helper does not.
\<close>

theorem replicate_branch_is_callReplicateAPI:
  assumes "get_prop inputs ''model'' = Inr model"
    and "get_prop inputs ''replicate_payload'' = Inr input"
  shows "handler_replicate w e toolType inputs tr =
         (case callReplicateAPI w model input (REPLICATE_API_KEY e) tr of
            None \<Rightarrow> None
          | Some (Inl x, tr1) \<Rightarrow> Some (Inl x, tr1)
          | Some (Inr output, tr1) \<Rightarrow>
              Some (Inr (Some \<lparr>statusCode = 200,
                body = stringify (Obj [(''type'', toolType), (''data'', output)])\<rparr>), tr1))"
  using handler_replicate_eq[OF assms, of w e toolType tr]
  by (simp add: data_response_def split: option.splits sum.splits prod.splits)

theorem replicate_branch_is_callReplicateAPI_witness:
  "handler_replicate two_polls keys (Str ''replicate-demo'') replicate_inputs [] =
     (case callReplicateAPI two_polls (Str ''m:1'') (Obj [(''userTrack'', Str ''u.wav'')])
             (REPLICATE_API_KEY keys) [] of
        None \<Rightarrow> None
      | Some (Inl x, tr1) \<Rightarrow> Some (Inl x, tr1)
      | Some (Inr output, tr1) \<Rightarrow>
          Some (Inr (Some \<lparr>statusCode = 200,
            body = stringify (Obj [(''type'', Str ''replicate-demo''), (''data'', output)])\<rparr>), tr1))"
  using replicate_branch_is_callReplicateAPI
    [of replicate_inputs "Str ''m:1''" "Obj [(''userTrack'', Str ''u.wav'')]" two_polls keys
        "Str ''replicate-demo''" "[]"]
  by (simp add: replicate_inputs_def)

text \<open>
  \<^bold>\<open>C1.\<close> When the submit call returns HTTP 201 with a non-terminal status and the next two
  polls return (with HTTP 200) a body with status \<^verbatim>\<open>processing\<close> and then a body with
  status \<^verbatim>\<open>succeeded\<close> and output \<^verbatim>\<open>"result-url"\<close>, the ids of the job bodies being
  primitive values (strings, in the data model), the adapter makes the submit request and
  then exactly two requests to the job-status endpoint, and its result is
  \<^verbatim>\<open>"result-url"\<close>. This holds for \<^verbatim>\<open>callReplicateAPI\<close> and for the router's
  \<^verbatim>\<open>replicate\<close> branch, which answers 200 with that result as \<^verbatim>\<open>data\<close>.
\<close>

theorem two_polls_then_result:
  assumes "w (length tr) = Inr r0" "status r0 = 201" "json r0 = Inr p0"
      "pending p0" "primitive (prediction_id p0)"
    and "w (length tr + 1) = Inr r1" "status r1 = 200" "json r1 = Inr p1"
      "get_prop p1 ''status'' = Inr (Str ''processing'')" "primitive (prediction_id p1)"
    and "w (length tr + 2) = Inr r2" "status r2 = 200" "json r2 = Inr p2"
      "get_prop p2 ''status'' = Inr (Str ''succeeded'')"
      "get_prop p2 ''output'' = Inr (Str ''result-url'')"
  shows "callReplicateAPI w model input k tr =
           Some (Inr (Str ''result-url''),
                 tr @ [submit_request k model input,
                       status_request k (id_text p0),
                       status_request k (id_text p1)])
         \<and> length (filter is_status_fetch
               [submit_request k model input,
                status_request k (id_text p0),
                status_request k (id_text p1)]) = 2
         \<and> (tool_request ev t inputs \<and> prefix ''replicate'' t
              \<and> get_prop inputs ''model'' = Inr model
              \<and> get_prop inputs ''replicate_payload'' = Inr input
            \<longrightarrow> handler w e ev tr =
                  Some (Some (data_response (Str t) (Str ''result-url'')),
                        tr @ [submit_request (REPLICATE_API_KEY e) model input,
                              status_request (REPLICATE_API_KEY e) (id_text p0),
                              status_request (REPLICATE_API_KEY e) (id_text p1)]))"
proof -
  have p0: "pollable p0" using assms(4,5) by (simp add: pollable_def)
  have p1: "pollable p1" using assms(9,10) by (simp add: pollable_def pending_def)
  have p2: "terminal p2" using assms(14) by (simp add: terminal_def)
  have adapter: "callReplicateAPI w model input k tr =
           Some (Inr (Str ''result-url''),
                 tr @ [submit_request k model input,
                       status_request k (id_text p0),
                       status_request k (id_text p1)])" for k
  proof -
    let ?tr1 = "tr @ [submit_request k model input]"
    let ?tr2 = "?tr1 @ [status_request k (id_text p0)]"
    let ?tr3 = "?tr2 @ [status_request k (id_text p1)]"
    have "callReplicateAPI_poll w k p0 ?tr1 = callReplicateAPI_poll w k p1 ?tr2"
      using poll_continue[of p0 w ?tr1 r1 p1 k] p0 assms(6-8) by simp
    also have "\<dots> = callReplicateAPI_poll w k p2 ?tr3"
      using poll_continue[of p1 w ?tr2 r2 p2 k] p1 assms(11-13) by simp
    also have "\<dots> = Some (Inr p2, ?tr3)" using p2 by (rule poll_terminal)
    finally have "callReplicateAPI_poll w k p0 ?tr1 = Some (Inr p2, ?tr3)" .
    from callReplicateAPI_polls[OF assms(1-3) this assms(14)] assms(15)
    show ?thesis by simp
  qed
  have count: "length (filter is_status_fetch
               [submit_request k model input,
                status_request k (id_text p0),
                status_request k (id_text p1)]) = 2"
    by (simp add: is_status_fetch_def submit_request_def status_request_def)
  have router: "handler w e ev tr =
                  Some (Some (data_response (Str t) (Str ''result-url'')),
                        tr @ [submit_request (REPLICATE_API_KEY e) model input,
                              status_request (REPLICATE_API_KEY e) (id_text p0),
                              status_request (REPLICATE_API_KEY e) (id_text p1)])"
    if "tool_request ev t inputs" "prefix ''replicate'' t"
       "get_prop inputs ''model'' = Inr model" "get_prop inputs ''replicate_payload'' = Inr input"
    using handler_replicate_branch[OF that(1,2), of w e tr]
      handler_replicate_eq[OF that(3,4), of w e "Str t" tr] adapter[of "REPLICATE_API_KEY e"]
    by simp
  from adapter count router show ?thesis by blast
qed

theorem two_polls_then_result_witness:
  "callReplicateAPI two_polls (Str ''m:1'') (Obj [(''userTrack'', Str ''u.wav'')]) (Some ''r-key'') [] =
     Some (Inr (Str ''result-url''),
           [submit_request (Some ''r-key'') (Str ''m:1'') (Obj [(''userTrack'', Str ''u.wav'')]),
            status_request (Some ''r-key'') ''j1'',
            status_request (Some ''r-key'') ''j1''])
   \<and> handler two_polls keys (post ''replicate-demo'' replicate_inputs) [] =
     Some (Some (data_response (Str ''replicate-demo'') (Str ''result-url'')),
           [submit_request (Some ''r-key'') (Str ''m:1'') (Obj [(''userTrack'', Str ''u.wav'')]),
            status_request (Some ''r-key'') ''j1'',
            status_request (Some ''r-key'') ''j1''])"
  using two_polls_then_result
    [of two_polls "[]" "\<lparr>status = 201, json = Inr (job ''starting'')\<rparr>" "job ''starting''"
        "\<lparr>status = 200, json = Inr (job ''processing'')\<rparr>" "job ''processing''"
        "\<lparr>status = 200, json = Inr (Obj [(''id'', Str ''j1''), (''status'', Str ''succeeded''),
                           (''output'', Str ''result-url'')])\<rparr>"
        "Obj [(''id'', Str ''j1''), (''status'', Str ''succeeded''), (''output'', Str ''result-url'')]"
        "Str ''m:1''" "Obj [(''userTrack'', Str ''u.wav'')]" "Some ''r-key''"
        "post ''replicate-demo'' replicate_inputs" "''replicate-demo''" replicate_inputs keys]
  by (simp add: two_polls_def reply_def job_def pending_def prediction_id_def id_text_def
        tool_request_def post_def replicate_inputs_def keys_def)

text \<open>
  \<^bold>\<open>C2.\<close> The poll loop, run against a stream of provider responses of which those from
  position \<open>length tr\<close> on answer its polls, returns whenever some poll response carries a
  terminal status or a non-200 HTTP status; and when every poll response is HTTP 200 with a
  non-terminal status, the loop, entered with a job that is not terminal, never returns:
  nothing bounds the number of rounds. The job bodies of the second part have primitive ids
  (strings, in the data model), so that every poll URL can be built. Both copies of the loop
  behave so.
\<close>

theorem poll_loop_termination:
  "((\<exists>n. ends_polling (w (length tr + n))) \<longrightarrow>
      callReplicateAPI_poll w k p tr \<noteq> None \<and> handler_poll w e p tr \<noteq> None)
   \<and> ((\<forall>n. keeps_polling (w (length tr + n))) \<and> pollable p \<longrightarrow>
      callReplicateAPI_poll w k p tr = None \<and> handler_poll w e p tr = None)"
proof (intro conjI impI)
  assume "\<exists>n. ends_polling (w (length tr + n))"
  then obtain n where "ends_polling (w (length tr + n))" by blast
  then show "callReplicateAPI_poll w k p tr \<noteq> None" "handler_poll w e p tr \<noteq> None"
    by (simp_all add: handler_poll_eq poll_returns)
next
  assume "(\<forall>n. keeps_polling (w (length tr + n))) \<and> pollable p"
  then show "callReplicateAPI_poll w k p tr = None" "handler_poll w e p tr = None"
    by (simp_all add: handler_poll_eq poll_runs_forever)
qed

theorem poll_loop_termination_witness:
  "callReplicateAPI_poll two_polls (Some ''r-key'') (job ''starting'')
     [submit_request (Some ''r-key'') (Str ''m:1'') Null] \<noteq> None
   \<and> handler_poll two_polls keys (job ''starting'')
     [submit_request (Some ''r-key'') (Str ''m:1'') Null] \<noteq> None
   \<and> callReplicateAPI_poll always_processing (Some ''r-key'') (job ''starting'') [] = None
   \<and> handler_poll always_processing keys (job ''starting'') [] = None"
proof -
  have "ends_polling (two_polls (length [submit_request (Some ''r-key'') (Str ''m:1'') Null] + 1))"
    by (simp add: ends_polling_def two_polls_def reply_def terminal_def)
  then have stops: "\<exists>n. ends_polling
      (two_polls (length [submit_request (Some ''r-key'') (Str ''m:1'') Null] + n))" ..
  have goes_on: "\<forall>n. keeps_polling (always_processing (length ([]::trace) + n))"
    by (simp add: keeps_polling_def always_processing_def reply_def job_def pollable_def
        pending_def prediction_id_def)
  have p: "pollable (job ''starting'')"
    by (simp add: pollable_def pending_def prediction_id_def job_def)
  from stops goes_on p
    poll_loop_termination [of two_polls "[submit_request (Some ''r-key'') (Str ''m:1'') Null]"
      "Some ''r-key''" "job ''starting''" keys]
    poll_loop_termination [of always_processing "[]" "Some ''r-key''" "job ''starting''" keys]
  show ?thesis by blast
qed

lemma adapter_reaches_terminal:
  assumes "\<forall>i<n. stage_pending w (length tr) i" "stage_is w (length tr) n pf" "terminal pf"
  shows "\<exists>r0 p0 tr2. w (length tr) = Inr r0 \<and> status r0 = 201 \<and> json r0 = Inr p0 \<and>
     callReplicateAPI_poll w k p0 (tr @ [submit_request k model input]) = Some (Inr pf, tr2) \<and>
     length tr2 = length tr + Suc n \<and>
     (\<forall>q\<in>set (drop (Suc (length tr)) tr2). is_status_fetch q)"
proof (cases n)
  case 0
  with assms(2) obtain r0 where "w (length tr) = Inr r0" "status r0 = 201" "json r0 = Inr pf"
    by (auto simp: stage_is_def split: sum.splits)
  with assms(3) 0 show ?thesis by (simp add: poll_terminal)
next
  case (Suc m)
  let ?tr1 = "tr @ [submit_request k model input]"
  from assms(1) Suc have "stage_pending w (length tr) 0" by simp
  then obtain r0 p0 where
    r0: "w (length tr) = Inr r0" "status r0 = 201" "json r0 = Inr p0" "pollable p0"
    by (auto simp: stage_pending_def split: sum.splits)
  have a: "\<forall>i<m. keeps_polling (w (length ?tr1 + i))"
  proof (intro allI impI)
    fix i assume "i < m"
    then have "stage_pending w (length tr) (Suc i)" using assms(1) Suc by simp
    then show "keeps_polling (w (length ?tr1 + i))"
      by (auto simp: stage_pending_def keeps_polling_def split: sum.splits)
  qed
  from assms(2) Suc obtain r where
    r: "w (length ?tr1 + m) = Inr r" "status r = 200" "json r = Inr pf"
    by (auto simp: stage_is_def split: sum.splits)
  from poll_reaches_terminal[OF r0(4) a r assms(3), of k]
  obtain tr2 where "callReplicateAPI_poll w k p0 ?tr1 = Some (Inr pf, tr2)"
    "length tr2 = length ?tr1 + Suc m" "\<forall>q\<in>set (drop (length ?tr1) tr2). is_status_fetch q"
    by blast
  with r0 Suc show ?thesis by simp
qed


text \<open>
  \<^bold>\<open>C3.\<close> When a prediction job reaches the terminal status \<^verbatim>\<open>failed\<close> with the provider
  error \<^verbatim>\<open>"OOM"\<close> (in the submit response itself, or after any number of polls that
  found it not terminal, with a primitive id to poll it again), the adapter throws an error whose message contains \<^verbatim>\<open>OOM\<close>, and
  the router answers 500 with that message as \<^verbatim>\<open>error\<close>: in the plain prediction branch,
  and in the hybrid branch once its generation stage has returned.
\<close>

theorem failed_job_reports_error:
  assumes "\<forall>i<n. stage_pending w (length tr) i"
    and "stage_is w (length tr) n pf"
    and "get_prop pf ''status'' = Inr (Str ''failed'')"
    and "get_prop pf ''error'' = Inr (Str ''OOM'')"
  shows "(\<exists>tr1. callReplicateAPI w model input k tr =
              Some (Inl (Error (failed_message ''OOM'')), tr1))
         \<and> sublist ''OOM'' (message (Error (failed_message ''OOM'')))
         \<and> (tool_request ev t inputs \<and> prefix ''replicate'' t
              \<and> get_prop inputs ''model'' = Inr model
              \<and> get_prop inputs ''replicate_payload'' = Inr input
            \<longrightarrow> (\<exists>tr1. handler w e ev tr =
                   Some (Some (error_response (failed_message ''OOM'')), tr1)))
         \<and> (tool_request hev ''hybrid-mastering'' hinputs
              \<and> hybrid_args hinputs = Inr (ra, ut, rt)
              \<and> callGeminiAPI w (Str (briefPrompt ra)) (GEMINI_API_KEY e) tr0 = (Inr brief, tr)
            \<longrightarrow> (\<exists>tr1. handler w e hev tr0 =
                   Some (Some (error_response (failed_message ''OOM'')), tr1)))"
proof -
  have t: "terminal pf" using assms(3) by (simp add: terminal_def)
  have adapter: "\<exists>tr1. callReplicateAPI w model input k tr =
              Some (Inl (Error (failed_message ''OOM'')), tr1)" for k model input
  proof -
    from adapter_reaches_terminal[OF assms(1,2) t, of k model input]
    obtain r0 p0 tr2 where r0: "w (length tr) = Inr r0" "status r0 = 201" "json r0 = Inr p0"
      and "callReplicateAPI_poll w k p0 (tr @ [submit_request k model input]) = Some (Inr pf, tr2)"
      by blast
    from callReplicateAPI_polls[OF r0 this(4) assms(3)] assms(4)
    show ?thesis by simp
  qed
  have contains: "sublist ''OOM'' (message (Error (failed_message ''OOM'')))"
    by (simp add: failed_message_def sublist_def)
       (rule exI[of _ "''La tarea en Replicate fall'' @ o_acute @ '': ''"], simp)
  have router: "\<exists>tr1. handler w e ev tr =
                   Some (Some (error_response (failed_message ''OOM'')), tr1)"
    if "tool_request ev t inputs" "prefix ''replicate'' t"
       "get_prop inputs ''model'' = Inr model" "get_prop inputs ''replicate_payload'' = Inr input"
    using handler_replicate_branch[OF that(1,2), of w e tr]
      handler_replicate_eq[OF that(3,4), of w e "Str t" tr]
      adapter[of model input "REPLICATE_API_KEY e"]
    by (auto simp: error_response_def)
  have hybrid: "\<exists>tr1. handler w e hev tr0 =
                   Some (Some (error_response (failed_message ''OOM'')), tr1)"
    if "tool_request hev ''hybrid-mastering'' hinputs" "hybrid_args hinputs = Inr (ra, ut, rt)"
       "callGeminiAPI w (Str (briefPrompt ra)) (GEMINI_API_KEY e) tr0 = (Inr brief, tr)"
    using handler_hybrid_branch[OF that(1), of w e tr0]
      handler_hybrid_readable[OF that(2), of w e tr0] that(3)
      adapter[of "Str mastering_model" "Obj [(''input_audio'', ut), (''reference_audio'', rt)]"
        "REPLICATE_API_KEY e"]
    by (auto simp: error_response_def)
  from adapter[of model input k] contains router hybrid show ?thesis by blast
qed

theorem failed_job_reports_error_witness:
  "(\<exists>tr1. callReplicateAPI out_of_memory (Str ''m:1'') (Obj [(''userTrack'', Str ''u.wav'')])
            (Some ''r-key'') [] =
          Some (Inl (Error (failed_message ''OOM'')), tr1))
   \<and> (\<exists>tr1. handler out_of_memory keys (post ''replicate-demo'' replicate_inputs) [] =
          Some (Some (error_response (failed_message ''OOM'')), tr1))
   \<and> (\<exists>tr1. handler brief_then_oom keys (post ''hybrid-mastering'' hybrid_inputs) [] =
          Some (Some (error_response (failed_message ''OOM'')), tr1))"
proof -
  let ?failed = "Obj [(''id'', Str ''j1''), (''status'', Str ''failed''), (''error'', Str ''OOM'')]"
  let ?tr1 = "[generate_request (Some ''g-key'') (Str (briefPrompt Undefined))]"
  have a: "\<forall>i<2. stage_pending out_of_memory (length ([]::trace)) i"
    by (simp add: stage_pending_def out_of_memory_def reply_def job_def pollable_def
        pending_def prediction_id_def)
  have b: "stage_is out_of_memory (length ([]::trace)) 2 ?failed"
    by (simp add: stage_is_def out_of_memory_def reply_def)
  have c: "tool_request (post ''replicate-demo'' replicate_inputs) ''replicate-demo'' replicate_inputs"
    by (simp add: tool_request_def post_def)
  have a': "\<forall>i<2. stage_pending brief_then_oom (length ?tr1) i"
    by (simp add: stage_pending_def brief_then_oom_def out_of_memory_def reply_def job_def
        pollable_def pending_def prediction_id_def)
  have b': "stage_is brief_then_oom (length ?tr1) 2 ?failed"
    by (simp add: stage_is_def brief_then_oom_def out_of_memory_def reply_def)
  have c': "tool_request (post ''hybrid-mastering'' hybrid_inputs) ''hybrid-mastering'' hybrid_inputs"
    by (simp add: tool_request_def post_def)
  have args: "hybrid_args hybrid_inputs = Inr (Undefined, Str ''u.wav'', Str ''r.wav'')"
    by (simp add: hybrid_args_def hybrid_inputs_def bind_err_def)
  have brief: "callGeminiAPI brief_then_oom (Str (briefPrompt Undefined)) (GEMINI_API_KEY keys) [] =
      (Inr (Str ''plan''), ?tr1)"
    unfolding callGeminiAPI_def generate_request_def[symmetric]
    by (simp add: fetch_def brief_then_oom_def reply_def ok_def generated_def
        first_candidate_text_def bind_err_def keys_def)
  from failed_job_reports_error [OF a b, of "Str ''m:1''" "Obj [(''userTrack'', Str ''u.wav'')]"
      "Some ''r-key''" "post ''replicate-demo'' replicate_inputs" "''replicate-demo''"
      replicate_inputs keys] c
  have plain: "(\<exists>tr1. callReplicateAPI out_of_memory (Str ''m:1'') (Obj [(''userTrack'', Str ''u.wav'')])
            (Some ''r-key'') [] =
          Some (Inl (Error (failed_message ''OOM'')), tr1))
   \<and> (\<exists>tr1. handler out_of_memory keys (post ''replicate-demo'' replicate_inputs) [] =
          Some (Some (error_response (failed_message ''OOM'')), tr1))"
    by (simp add: replicate_inputs_def)
  from failed_job_reports_error [where w = brief_then_oom and tr = ?tr1 and e = keys
      and hev = "post ''hybrid-mastering'' hybrid_inputs" and hinputs = hybrid_inputs
      and ra = Undefined and ut = "Str ''u.wav''" and rt = "Str ''r.wav''" and ?tr0.0 = "[]"
      and brief = "Str ''plan''", OF a' b'] c' args brief
  have "\<exists>tr1. handler brief_then_oom keys (post ''hybrid-mastering'' hybrid_inputs) [] =
          Some (Some (error_response (failed_message ''OOM'')), tr1)"
    by simp
  with plain show ?thesis by simp
qed

section \<open>Properties of the hybrid branch\<close>

text \<open>
  \<^bold>\<open>C6.\<close> As stated the claim does not hold: here the generation stage succeeds, the
  prediction job is accepted and then stays \<^verbatim>\<open>processing\<close> for ever, and the invocation
  returns neither the 200 nor the 500 response: it does not return.
\<close>

theorem hybrid_no_response_counterexample:
  "handler brief_then_stuck keys (post ''hybrid-mastering'' hybrid_inputs) [] = None"
proof -
  let ?ev = "post ''hybrid-mastering'' hybrid_inputs"
  let ?prompt = "Str (briefPrompt Undefined)"
  let ?tr1 = "[generate_request (Some ''g-key'') ?prompt]"
  have req: "tool_request ?ev ''hybrid-mastering'' hybrid_inputs"
    by (simp add: tool_request_def post_def)
  have args: "hybrid_args hybrid_inputs = Inr (Undefined, Str ''u.wav'', Str ''r.wav'')"
    by (simp add: hybrid_args_def hybrid_inputs_def bind_err_def)
  have brief: "callGeminiAPI brief_then_stuck ?prompt (GEMINI_API_KEY keys) [] =
      (Inr (Str ''plan''), ?tr1)"
    unfolding callGeminiAPI_def generate_request_def[symmetric]
    by (simp add: fetch_def brief_then_stuck_def reply_def ok_def generated_def
        first_candidate_text_def bind_err_def keys_def)
  have "\<forall>n. keeps_polling (brief_then_stuck
      (length (?tr1 @ [submit_request (Some ''r-key'') (Str mastering_model)
         (Obj [(''input_audio'', Str ''u.wav''), (''reference_audio'', Str ''r.wav'')])]) + n))"
    by (simp add: keeps_polling_def brief_then_stuck_def reply_def job_def pollable_def
        pending_def prediction_id_def)
  moreover have "pollable (job ''starting'')"
    by (simp add: pollable_def pending_def prediction_id_def job_def)
  ultimately have "callReplicateAPI_poll brief_then_stuck (Some ''r-key'') (job ''starting'')
      (?tr1 @ [submit_request (Some ''r-key'') (Str mastering_model)
         (Obj [(''input_audio'', Str ''u.wav''), (''reference_audio'', Str ''r.wav'')])]) = None"
    by (rule poll_runs_forever)
  then have stuck: "callReplicateAPI brief_then_stuck (Str mastering_model)
      (Obj [(''input_audio'', Str ''u.wav''), (''reference_audio'', Str ''r.wav'')])
      (REPLICATE_API_KEY keys) ?tr1 = None"
    using callReplicateAPI_stuck[of brief_then_stuck ?tr1
        "\<lparr>status = 201, json = Inr (job ''starting'')\<rparr>" "job ''starting''" "Some ''r-key''"]
    by (simp add: brief_then_stuck_def reply_def keys_def)
  show ?thesis
    by (simp add: handler_hybrid_branch[OF req] handler_hybrid_readable[OF args] brief stuck)
qed

text \<open>
  \<^bold>\<open>C6, amended.\<close> The response of the hybrid tool is all or nothing. If reading the
  inputs or the generation stage throws, one 500 response is returned whose body holds the
  error message and nothing else. If the generation stage succeeds, the outcome is that of the
  prediction stage: when it throws, again one 500 response with only the error message, the
  brief being dropped; when it succeeds, one 200 response serialising
  \<^verbatim>\<open>{type, brief, audioUrl}\<close> with both results; and when the prediction job never reaches
  a terminal state, no response at all.
\<close>

theorem hybrid_all_or_nothing:
  assumes "tool_request ev ''hybrid-mastering'' inputs"
  shows "(\<forall>x. hybrid_args inputs = Inl x \<longrightarrow>
            handler w e ev tr = Some (Some (error_response (message x)), tr))
       \<and> (\<forall>ra ut rt. hybrid_args inputs = Inr (ra, ut, rt) \<longrightarrow>
            handler w e ev tr =
              (case callGeminiAPI w (Str (briefPrompt ra)) (GEMINI_API_KEY e) tr of
                 (Inl x, tr1) \<Rightarrow> Some (Some (error_response (message x)), tr1)
               | (Inr brief, tr1) \<Rightarrow>
                   (case callReplicateAPI w (Str mastering_model)
                           (Obj [(''input_audio'', ut), (''reference_audio'', rt)])
                           (REPLICATE_API_KEY e) tr1 of
                      None \<Rightarrow> None
                    | Some (Inl x, tr2) \<Rightarrow> Some (Some (error_response (message x)), tr2)
                    | Some (Inr audioUrl, tr2) \<Rightarrow>
                        Some (Some \<lparr>statusCode = 200,
                           body = stringify (Obj [(''type'', Str ''hybrid-mastering''),
                                                  (''brief'', brief),
                                                  (''audioUrl'', audioUrl)])\<rparr>, tr2))))"
proof (intro conjI allI impI)
  fix x assume "hybrid_args inputs = Inl x"
  then show "handler w e ev tr = Some (Some (error_response (message x)), tr)"
    by (simp add: handler_hybrid_branch[OF assms] handler_hybrid_unreadable error_response_def)
next
  fix ra ut rt assume a: "hybrid_args inputs = Inr (ra, ut, rt)"
  show "handler w e ev tr =
              (case callGeminiAPI w (Str (briefPrompt ra)) (GEMINI_API_KEY e) tr of
                 (Inl x, tr1) \<Rightarrow> Some (Some (error_response (message x)), tr1)
               | (Inr brief, tr1) \<Rightarrow>
                   (case callReplicateAPI w (Str mastering_model)
                           (Obj [(''input_audio'', ut), (''reference_audio'', rt)])
                           (REPLICATE_API_KEY e) tr1 of
                      None \<Rightarrow> None
                    | Some (Inl x, tr2) \<Rightarrow> Some (Some (error_response (message x)), tr2)
                    | Some (Inr audioUrl, tr2) \<Rightarrow>
                        Some (Some \<lparr>statusCode = 200,
                           body = stringify (Obj [(''type'', Str ''hybrid-mastering''),
                                                  (''brief'', brief),
                                                  (''audioUrl'', audioUrl)])\<rparr>, tr2)))"
    unfolding handler_hybrid_branch[OF assms] handler_hybrid_readable[OF a]
    by (simp add: error_response_def split: prod.splits sum.splits option.splits)
qed


theorem hybrid_all_or_nothing_witness:
  "handler offline keys (post ''hybrid-mastering'' Null) [] =
     Some (Some (error_response (''Cannot read properties of null (reading ''
       @ quoted ''replicate_payload'' @ '')'')), [])
   \<and> handler brief_then_refused keys (post ''hybrid-mastering'' hybrid_inputs) [] =
     Some (Some (error_response ''payment required''),
           [generate_request (Some ''g-key'') (Str (briefPrompt Undefined)),
            submit_request (Some ''r-key'') (Str mastering_model)
              (Obj [(''input_audio'', Str ''u.wav''), (''reference_audio'', Str ''r.wav'')])])
   \<and> handler brief_then_audio keys (post ''hybrid-mastering'' hybrid_inputs) [] =
     Some (Some \<lparr>statusCode = 200,
             body = Obj [(''type'', Str ''hybrid-mastering''), (''brief'', Str ''plan''),
                         (''audioUrl'', Str ''audio-url'')]\<rparr>,
           [generate_request (Some ''g-key'') (Str (briefPrompt Undefined)),
            submit_request (Some ''r-key'') (Str mastering_model)
              (Obj [(''input_audio'', Str ''u.wav''), (''reference_audio'', Str ''r.wav'')])])"
proof -
  let ?prompt = "Str (briefPrompt Undefined)"
  let ?input = "Obj [(''input_audio'', Str ''u.wav''), (''reference_audio'', Str ''r.wav'')]"
  let ?tr1 = "[generate_request (Some ''g-key'') ?prompt]"
  let ?tr2 = "?tr1 @ [submit_request (Some ''r-key'') (Str mastering_model) ?input]"
  let ?done = "Obj [(''id'', Str ''j1''), (''status'', Str ''succeeded''),
                    (''output'', Str ''audio-url'')]"
  have req0: "tool_request (post ''hybrid-mastering'' Null) ''hybrid-mastering'' Null"
    by (simp add: tool_request_def post_def)
  have req: "tool_request (post ''hybrid-mastering'' hybrid_inputs) ''hybrid-mastering'' hybrid_inputs"
    by (simp add: tool_request_def post_def)
  have args0: "hybrid_args Null = Inl (TypeError (''Cannot read properties of null (reading ''
       @ quoted ''replicate_payload'' @ '')''))"
    by (simp add: hybrid_args_def bind_err_def)
  have args: "hybrid_args hybrid_inputs = Inr (Undefined, Str ''u.wav'', Str ''r.wav'')"
    by (simp add: hybrid_args_def hybrid_inputs_def bind_err_def)
  have brief1: "callGeminiAPI brief_then_refused ?prompt (GEMINI_API_KEY keys) [] =
      (Inr (Str ''plan''), ?tr1)"
    unfolding callGeminiAPI_def generate_request_def[symmetric]
    by (simp add: fetch_def brief_then_refused_def reply_def ok_def generated_def
        first_candidate_text_def bind_err_def keys_def)
  have brief2: "callGeminiAPI brief_then_audio ?prompt (GEMINI_API_KEY keys) [] =
      (Inr (Str ''plan''), ?tr1)"
    unfolding callGeminiAPI_def generate_request_def[symmetric]
    by (simp add: fetch_def brief_then_audio_def reply_def ok_def generated_def
        first_candidate_text_def bind_err_def keys_def)
  have refused: "callReplicateAPI brief_then_refused (Str mastering_model) ?input
      (REPLICATE_API_KEY keys) ?tr1 = Some (Inl (Error ''payment required''), ?tr2)"
    unfolding callReplicateAPI_def submit_request_def[symmetric]
    by (simp add: fetch_def brief_then_refused_def reply_def or_else_def thrown_def keys_def)
  have "terminal ?done" by (simp add: terminal_def)
  then have "callReplicateAPI_poll brief_then_audio (Some ''r-key'') ?done ?tr2 =
      Some (Inr ?done, ?tr2)"
    by (rule poll_terminal)
  then have audio: "callReplicateAPI brief_then_audio (Str mastering_model) ?input
      (REPLICATE_API_KEY keys) ?tr1 = Some (Inr (Str ''audio-url''), ?tr2)"
    using callReplicateAPI_polls[of brief_then_audio ?tr1 "\<lparr>status = 201, json = Inr ?done\<rparr>"
        ?done "Some ''r-key''" "Str mastering_model" ?input ?done ?tr2 "Str ''succeeded''"]
    by (simp add: brief_then_audio_def reply_def keys_def)
  from hybrid_all_or_nothing[OF req0, of offline keys "[]"] args0
  have one: "handler offline keys (post ''hybrid-mastering'' Null) [] =
     Some (Some (error_response (''Cannot read properties of null (reading ''
       @ quoted ''replicate_payload'' @ '')'')), [])"
    by simp
  from hybrid_all_or_nothing[OF req, of brief_then_refused keys "[]"] args brief1 refused
  have two: "handler brief_then_refused keys (post ''hybrid-mastering'' hybrid_inputs) [] =
     Some (Some (error_response ''payment required''), ?tr2)"
    by simp
  from hybrid_all_or_nothing[OF req, of brief_then_audio keys "[]"] args brief2 audio
  have three: "handler brief_then_audio keys (post ''hybrid-mastering'' hybrid_inputs) [] =
     Some (Some \<lparr>statusCode = 200,
             body = Obj [(''type'', Str ''hybrid-mastering''), (''brief'', Str ''plan''),
                         (''audioUrl'', Str ''audio-url'')]\<rparr>, ?tr2)"
    by simp
  from one two three show ?thesis by simp
qed

section \<open>Properties of the generation branch\<close>

lemma handler_gemini_not_ok:
  assumes "get_prop inputs ''prompt'' = Inr prompt"
    and "w (length tr) = Inr r" "\<not> ok r" "json r = Inr errorData"
  shows "handler_gemini w e toolType inputs tr =
     ((case provider_message errorData ''Error en la API de Gemini.'' of
         Inl x \<Rightarrow> Inl x
       | Inr m \<Rightarrow> Inl (Error m)),
      tr @ [generate_request (GEMINI_API_KEY e) prompt])"
  using assms
  unfolding handler_gemini_def generate_request_def[symmetric]
  by (simp add: fetch_def split: sum.splits)

lemma handler_gemini_image:
  assumes "get_prop inputs ''prompt'' = Inr prompt"
    and "w (length tr) = Inr r" "ok r" "json r = Inr result"
    and "first_candidate_text result = Inr (Str text)"
  shows "handler_gemini w e (Str ''gemini-image'') inputs tr =
     (case callImageAPI w (Str (before_sep ''**Tip de Oro'' text)) (GEMINI_API_KEY e)
             (tr @ [generate_request (GEMINI_API_KEY e) prompt]) of
        (Inl x, tr2) \<Rightarrow> (Inl x, tr2)
      | (Inr imageUrl, tr2) \<Rightarrow>
          (Inr (Some (data_response (Str ''gemini-image'') imageUrl)), tr2))"
  using assms
  unfolding handler_gemini_def generate_request_def[symmetric] data_response_def[symmetric]
  by (simp add: fetch_def split: sum.splits prod.splits)

lemma callImageAPI_ok:
  assumes "w (length tr) = Inr r" "ok r" "json r = Inr result" "image_payload result = Inr b"
  shows "callImageAPI w prompt k tr =
     (if truthy b then
        (case to_string b of
           Inl x \<Rightarrow> Inl x
         | Inr shown \<Rightarrow> Inr (Str (''data:image/png;base64,'' @ shown)))
      else Inl (Error ''No se pudo generar la imagen.''),
      tr @ [imagen_request k prompt])"
  using assms
  unfolding callImageAPI_def imagen_request_def[symmetric]
  by (simp add: fetch_def split: sum.splits)

lemma opt_prop_reads: "\<exists>v. opt_prop p k = Inr v"
  by (cases p) simp_all

lemma get_index0_reads: "truthy p \<Longrightarrow> \<exists>v. get_index0 p = Inr v"
  by (cases p) simp_all

text \<open>The payload of a body that can be read (any JSON value but \<^verbatim>\<open>null\<close>) is extracted
  without an error: a body without \<^verbatim>\<open>predictions\<close> has no payload, it does not throw.\<close>

lemma image_payload_reads:
  assumes "result \<noteq> Null" "result \<noteq> Undefined"
  shows "\<exists>b. image_payload result = Inr b"
proof -
  from assms obtain predictions where p: "get_prop result ''predictions'' = Inr predictions"
    by (cases result) simp_all
  show ?thesis
  proof (cases "truthy predictions")
    case False
    with p show ?thesis by (simp add: image_payload_def bind_err_def)
  next
    case True
    then obtain v where "get_index0 predictions = Inr v" using get_index0_reads by blast
    with p True opt_prop_reads[of v "''bytesBase64Encoded''"] show ?thesis
      by (auto simp: image_payload_def bind_err_def)
  qed
qed

lemma prefix_within:
  assumes "prefix m (xs @ ys)" "length m \<le> length xs"
  shows "prefix m xs"
  using assms by (metis prefix_length_prefix prefixI)

lemma before_sep_first:
  assumes "m \<noteq> []" "\<not> sublist m (pre @ butlast m)"
  shows "before_sep m (pre @ m @ suf) = pre"
  using assms
proof (induction pre)
  case Nil
  then show ?case by (cases m) simp_all
next
  case (Cons c pre)
  have no: "\<not> prefix m ((c # pre) @ m @ suf)"
  proof
    assume "prefix m ((c # pre) @ m @ suf)"
    moreover have "m @ suf = butlast m @ (last m # suf)"
      using Cons.prems(1) by (metis append.assoc append_Cons append_Nil append_butlast_last_id)
    ultimately have "prefix m (((c # pre) @ butlast m) @ (last m # suf))"
      by simp
    moreover have "length m \<le> length ((c # pre) @ butlast m)"
      using Cons.prems(1) by simp
    ultimately have "prefix m ((c # pre) @ butlast m)" by (rule prefix_within)
    then have "sublist m ((c # pre) @ butlast m)" by (rule prefix_imp_sublist)
    with Cons.prems(2) show False by simp
  qed
  have "\<not> sublist m (pre @ butlast m)"
  proof
    assume "sublist m (pre @ butlast m)"
    then have "sublist m (c # (pre @ butlast m))" by (simp add: sublist_Cons_right)
    with Cons.prems(2) show False by simp
  qed
  with Cons.IH Cons.prems(1) have "before_sep m (pre @ m @ suf) = pre" by simp
  with no show ?case by simp
qed


text \<open>
  \<^bold>\<open>C8.\<close> As stated the claim does not hold: the generic message is not used only when
  the provider message is absent. Here the error body carries a message, the empty string,
  and the router still answers with the generic text.
\<close>

theorem gemini_fallback_counterexample:
  "map_of [(''message'', Str [])] ''message'' = Some (Str [])
   \<and> handler empty_message keys (post ''gemini-text'' (Obj [(''prompt'', Str ''hello'')])) [] =
     Some (Some (error_response ''Error en la API de Gemini.''),
           [generate_request (Some ''g-key'') (Str ''hello'')])"
proof -
  have req: "tool_request (post ''gemini-text'' (Obj [(''prompt'', Str ''hello'')])) ''gemini-text''
      (Obj [(''prompt'', Str ''hello'')])"
    by (simp add: tool_request_def post_def)
  have pre: "prefix ''gemini'' ''gemini-text''" by simp
  have pr: "get_prop (Obj [(''prompt'', Str ''hello'')]) ''prompt'' = Inr (Str ''hello'')"
    by simp
  have resp: "empty_message (length ([]::trace)) =
      Inr \<lparr>status = 429, json = Inr (Obj [(''error'', Obj [(''message'', Str [])])])\<rparr>"
    by (simp add: empty_message_def reply_def)
  have bad: "\<not> ok \<lparr>status = 429, json = Inr (Obj [(''error'', Obj [(''message'', Str [])])])\<rparr>"
    by (simp add: ok_def)
  have body: "json \<lparr>status = 429, json = Inr (Obj [(''error'', Obj [(''message'', Str [])])])\<rparr> =
      Inr (Obj [(''error'', Obj [(''message'', Str [])])])"
    by simp
  from handler_gemini_branch[OF req pre, of empty_message keys "[]"]
    handler_gemini_not_ok[where w = empty_message and tr = "[]" and e = keys
      and toolType = "Str ''gemini-text''", OF pr resp bad body]
  show ?thesis
    by (simp add: provider_message_def bind_err_def or_else_def keys_def error_response_def)
qed

text \<open>
  \<^bold>\<open>C8, amended.\<close> For a request of the gemini family whose inputs can be read, when the
  generation endpoint answers with a status outside 200..299 and the body
  \<^verbatim>\<open>{error: {message: "quota exceeded"}}\<close>, the adapter throws an error with the message
  \<^verbatim>\<open>quota exceeded\<close> and the router answers 500 with \<^verbatim>\<open>{error: "quota exceeded"}\<close>. In
  general, for an error body that can be read, the message is the provider's
  \<^verbatim>\<open>error.message\<close> rendered as text whenever that is truthy (a string that is not empty
  is itself; the message of the \<^verbatim>\<open>TypeError\<close> if it is an object that cannot be
  rendered), and the generic text whenever it is falsy: absent, \<^verbatim>\<open>null\<close>,
  \<^verbatim>\<open>false\<close>, \<^verbatim>\<open>0\<close> or the empty string.
\<close>

theorem gemini_error_is_reported:
  assumes "tool_request ev t inputs" "prefix ''gemini'' t"
    and "get_prop inputs ''prompt'' = Inr prompt"
    and "w (length tr) = Inr r" "\<not> ok r" "json r = Inr errorData"
  shows "(errorData = Obj [(''error'', Obj [(''message'', Str ''quota exceeded'')])] \<longrightarrow>
            handler_gemini w e (Str t) inputs tr =
              (Inl (Error ''quota exceeded''), tr @ [generate_request (GEMINI_API_KEY e) prompt])
            \<and> handler w e ev tr =
              Some (Some (error_response ''quota exceeded''),
                    tr @ [generate_request (GEMINI_API_KEY e) prompt]))
       \<and> (\<forall>err m. get_prop errorData ''error'' = Inr err \<and> opt_prop err ''message'' = Inr m \<longrightarrow>
            handler w e ev tr =
              Some (Some (error_response
                      (if truthy m
                       then (case to_string m of Inl x \<Rightarrow> message x | Inr shown \<Rightarrow> shown)
                       else ''Error en la API de Gemini.'')),
                    tr @ [generate_request (GEMINI_API_KEY e) prompt]))
       \<and> (\<forall>err s. get_prop errorData ''error'' = Inr err
              \<and> opt_prop err ''message'' = Inr (Str s) \<and> s \<noteq> [] \<longrightarrow>
            handler w e ev tr =
              Some (Some (error_response s), tr @ [generate_request (GEMINI_API_KEY e) prompt]))
       \<and> (\<forall>err m. get_prop errorData ''error'' = Inr err \<and> opt_prop err ''message'' = Inr m
              \<and> m \<in> {Undefined, Null, Bool False, Num ''0'', Str []} \<longrightarrow>
            handler w e ev tr =
              Some (Some (error_response ''Error en la API de Gemini.''),
                    tr @ [generate_request (GEMINI_API_KEY e) prompt]))
       \<and> (\<forall>err kvs v. get_prop errorData ''error'' = Inr err
              \<and> opt_prop err ''message'' = Inr (Obj kvs) \<and> map_of kvs ''toString'' = Some v \<longrightarrow>
            handler w e ev tr =
              Some (Some (error_response ''Cannot convert object to primitive value''),
                    tr @ [generate_request (GEMINI_API_KEY e) prompt]))"
proof -
  note branch = handler_gemini_branch[OF assms(1,2), of w e tr]
  note thrown = handler_gemini_not_ok[where w = w and tr = tr and e = e and toolType = "Str t",
      OF assms(3-6)]
  have general: "handler w e ev tr =
              Some (Some (error_response
                      (if truthy m
                       then (case to_string m of Inl x \<Rightarrow> message x | Inr shown \<Rightarrow> shown)
                       else ''Error en la API de Gemini.'')),
                    tr @ [generate_request (GEMINI_API_KEY e) prompt])"
    if "get_prop errorData ''error'' = Inr err" "opt_prop err ''message'' = Inr m" for err m
    using that branch thrown
    by (simp add: provider_message_def bind_err_def or_else_def error_response_def
        split: sum.splits)
  have quota: "handler_gemini w e (Str t) inputs tr =
              (Inl (Error ''quota exceeded''), tr @ [generate_request (GEMINI_API_KEY e) prompt])"
    if "errorData = Obj [(''error'', Obj [(''message'', Str ''quota exceeded'')])]"
    using that thrown by (simp add: provider_message_def bind_err_def or_else_def)
  have quota_router: "handler w e ev tr =
              Some (Some (error_response ''quota exceeded''),
                    tr @ [generate_request (GEMINI_API_KEY e) prompt])"
    if "errorData = Obj [(''error'', Obj [(''message'', Str ''quota exceeded'')])]"
    using that general[of "Obj [(''message'', Str ''quota exceeded'')]" "Str ''quota exceeded''"]
    by simp
  have text_message: "handler w e ev tr =
              Some (Some (error_response s), tr @ [generate_request (GEMINI_API_KEY e) prompt])"
    if "get_prop errorData ''error'' = Inr err" "opt_prop err ''message'' = Inr (Str s)" "s \<noteq> []"
    for err s
    using general[OF that(1,2)] that(3) by simp
  have falsy: "handler w e ev tr =
              Some (Some (error_response ''Error en la API de Gemini.''),
                    tr @ [generate_request (GEMINI_API_KEY e) prompt])"
    if "get_prop errorData ''error'' = Inr err" "opt_prop err ''message'' = Inr m"
       "m \<in> {Undefined, Null, Bool False, Num ''0'', Str []}" for err m
    using general[OF that(1,2)] that(3) by auto
  have unrendered: "handler w e ev tr =
              Some (Some (error_response ''Cannot convert object to primitive value''),
                    tr @ [generate_request (GEMINI_API_KEY e) prompt])"
    if "get_prop errorData ''error'' = Inr err" "opt_prop err ''message'' = Inr (Obj kvs)"
       "map_of kvs ''toString'' = Some v" for err kvs v
    using general[OF that(1,2)] that(3) by simp
  from general quota quota_router text_message falsy unrendered show ?thesis by blast
qed

theorem gemini_error_is_reported_witness:
  "handler quota_exceeded keys (post ''gemini-text'' (Obj [(''prompt'', Str ''hello'')])) [] =
     Some (Some (error_response ''quota exceeded''),
           [generate_request (Some ''g-key'') (Str ''hello'')])
   \<and> handler no_message keys (post ''gemini-text'' (Obj [(''prompt'', Str ''hello'')])) [] =
     Some (Some (error_response ''Error en la API de Gemini.''),
           [generate_request (Some ''g-key'') (Str ''hello'')])"
proof -
  let ?quota = "Obj [(''error'', Obj [(''message'', Str ''quota exceeded'')])]"
  have req: "tool_request (post ''gemini-text'' (Obj [(''prompt'', Str ''hello'')])) ''gemini-text''
      (Obj [(''prompt'', Str ''hello'')])"
    by (simp add: tool_request_def post_def)
  have pre: "prefix ''gemini'' ''gemini-text''" by simp
  have pr: "get_prop (Obj [(''prompt'', Str ''hello'')]) ''prompt'' = Inr (Str ''hello'')"
    by simp
  have resp1: "quota_exceeded (length ([]::trace)) = Inr \<lparr>status = 429, json = Inr ?quota\<rparr>"
    by (simp add: quota_exceeded_def reply_def)
  have bad1: "\<not> ok \<lparr>status = 429, json = Inr ?quota\<rparr>"
    by (simp add: ok_def)
  have resp2: "no_message (length ([]::trace)) = Inr \<lparr>status = 500, json = Inr (Obj [])\<rparr>"
    by (simp add: no_message_def reply_def)
  have bad2: "\<not> ok \<lparr>status = 500, json = Inr (Obj [])\<rparr>"
    by (simp add: ok_def)
  from gemini_error_is_reported[where w = quota_exceeded and tr = "[]" and e = keys,
      OF req pre pr resp1 bad1]
  have one: "handler quota_exceeded keys (post ''gemini-text'' (Obj [(''prompt'', Str ''hello'')])) [] =
     Some (Some (error_response ''quota exceeded''),
           [generate_request (Some ''g-key'') (Str ''hello'')])"
    by (simp add: keys_def)
  from gemini_error_is_reported[where w = no_message and tr = "[]" and e = keys
      and errorData = "Obj []", OF req pre pr resp2 bad2]
  have two: "handler no_message keys (post ''gemini-text'' (Obj [(''prompt'', Str ''hello'')])) [] =
     Some (Some (error_response ''Error en la API de Gemini.''),
           [generate_request (Some ''g-key'') (Str ''hello'')])"
    by (simp add: keys_def)
  from one two show ?thesis by simp
qed

text \<open>
  \<^bold>\<open>C9.\<close> For the tool \<^verbatim>\<open>gemini-image\<close>, when the generated text contains the marker
  \<^verbatim>\<open>**Tip de Oro\<close>, the prompt sent to the image endpoint is the text before the first
  occurrence of the marker and nothing else. When the image endpoint answers with a success
  status and a body that can be read (any JSON value but \<^verbatim>\<open>null\<close>), the payload \<open>b\<close>
  is found without an error. If the body has a payload
  \<^verbatim>\<open>predictions[0].bytesBase64Encoded\<close>, a string that is not empty, the adapter's result
  is \<^verbatim>\<open>data:image/png;base64,\<close> followed by it and the router answers 200 with that as
  \<^verbatim>\<open>data\<close>; if it has no payload (no \<^verbatim>\<open>predictions\<close>, none in the list, no
  \<^verbatim>\<open>bytesBase64Encoded\<close> in the first, or an empty one), the adapter throws
  \<^verbatim>\<open>No se pudo generar la imagen.\<close> and the router answers 500 with that message.
\<close>

theorem image_prompt_and_result:
  assumes "tool_request ev ''gemini-image'' inputs"
    and "get_prop inputs ''prompt'' = Inr prompt"
    and "w (length tr) = Inr r" "ok r" "json r = Inr result"
    and "first_candidate_text result = Inr (Str (pre @ ''**Tip de Oro'' @ suf))"
    and "\<not> sublist ''**Tip de Oro'' (pre @ butlast ''**Tip de Oro'')"
    and "w (Suc (length tr)) = Inr r2" "ok r2" "json r2 = Inr result2"
    and "result2 \<noteq> Null" "result2 \<noteq> Undefined"
  shows "\<exists>b. image_payload result2 = Inr b
       \<and> handler w e ev tr =
           Some (Some (if truthy b
                       then (case to_string b of
                               Inl x \<Rightarrow> error_response (message x)
                             | Inr shown \<Rightarrow>
                                 data_response (Str ''gemini-image'')
                                   (Str (''data:image/png;base64,'' @ shown)))
                       else error_response ''No se pudo generar la imagen.''),
                 tr @ [generate_request (GEMINI_API_KEY e) prompt,
                       imagen_request (GEMINI_API_KEY e) (Str pre)])
       \<and> callImageAPI w (Str pre) (GEMINI_API_KEY e)
             (tr @ [generate_request (GEMINI_API_KEY e) prompt]) =
           (if truthy b
            then (case to_string b of
                    Inl x \<Rightarrow> Inl x
                  | Inr shown \<Rightarrow> Inr (Str (''data:image/png;base64,'' @ shown)))
            else Inl (Error ''No se pudo generar la imagen.''),
            tr @ [generate_request (GEMINI_API_KEY e) prompt,
                  imagen_request (GEMINI_API_KEY e) (Str pre)])
       \<and> (\<forall>kvs more b64. get_prop result2 ''predictions'' = Inr (Arr (Obj kvs # more))
              \<and> map_of kvs ''bytesBase64Encoded'' = Some (Str b64) \<and> b64 \<noteq> [] \<longrightarrow>
            b = Str b64
            \<and> handler w e ev tr =
                Some (Some (data_response (Str ''gemini-image'')
                              (Str (''data:image/png;base64,'' @ b64))),
                      tr @ [generate_request (GEMINI_API_KEY e) prompt,
                            imagen_request (GEMINI_API_KEY e) (Str pre)]))
       \<and> (get_prop result2 ''predictions'' = Inr Undefined
            \<or> get_prop result2 ''predictions'' = Inr (Arr [])
            \<or> (\<exists>kvs more. get_prop result2 ''predictions'' = Inr (Arr (Obj kvs # more))
                  \<and> (map_of kvs ''bytesBase64Encoded'' = None
                       \<or> map_of kvs ''bytesBase64Encoded'' = Some (Str []))) \<longrightarrow>
            \<not> truthy b
            \<and> handler w e ev tr =
                Some (Some (error_response ''No se pudo generar la imagen.''),
                      tr @ [generate_request (GEMINI_API_KEY e) prompt,
                            imagen_request (GEMINI_API_KEY e) (Str pre)]))"
proof -
  let ?tr1 = "tr @ [generate_request (GEMINI_API_KEY e) prompt]"
  let ?tr2 = "tr @ [generate_request (GEMINI_API_KEY e) prompt,
                    imagen_request (GEMINI_API_KEY e) (Str pre)]"
  from image_payload_reads[OF assms(11,12)] obtain b where b: "image_payload result2 = Inr b"
    by blast
  have cut: "before_sep ''**Tip de Oro'' (pre @ ''**Tip de Oro'' @ suf) = pre"
    using assms(7) by (intro before_sep_first) simp_all
  have image: "callImageAPI w (Str pre) (GEMINI_API_KEY e) ?tr1 =
           (if truthy b
            then (case to_string b of
                    Inl x \<Rightarrow> Inl x
                  | Inr shown \<Rightarrow> Inr (Str (''data:image/png;base64,'' @ shown)))
            else Inl (Error ''No se pudo generar la imagen.''), ?tr2)"
    using callImageAPI_ok[where w = w and tr = ?tr1 and r = r2 and result = result2 and b = b]
      assms(8-10) b by simp
  have "handler w e ev tr = Some (catch (handler_gemini w e (Str ''gemini-image'') inputs tr))"
    using handler_gemini_branch[OF assms(1)] by simp
  also have "handler_gemini w e (Str ''gemini-image'') inputs tr =
     (case callImageAPI w (Str pre) (GEMINI_API_KEY e) ?tr1 of
        (Inl x, tr2) \<Rightarrow> (Inl x, tr2)
      | (Inr imageUrl, tr2) \<Rightarrow>
          (Inr (Some (data_response (Str ''gemini-image'') imageUrl)), tr2))"
    using handler_gemini_image[where w = w and tr = tr and e = e, OF assms(2-6)] cut by simp
  finally have router: "handler w e ev tr =
           Some (Some (if truthy b
                       then (case to_string b of
                               Inl x \<Rightarrow> error_response (message x)
                             | Inr shown \<Rightarrow>
                                 data_response (Str ''gemini-image'')
                                   (Str (''data:image/png;base64,'' @ shown)))
                       else error_response ''No se pudo generar la imagen.''), ?tr2)"
    by (simp add: image error_response_def split: sum.splits)
  have present: "b = Str b64"
    if "get_prop result2 ''predictions'' = Inr (Arr (Obj kvs # more))"
       "map_of kvs ''bytesBase64Encoded'' = Some (Str b64)" for kvs more b64
    using that b by (simp add: image_payload_def bind_err_def)
  have absent: "\<not> truthy b"
    if "get_prop result2 ''predictions'' = Inr Undefined
        \<or> get_prop result2 ''predictions'' = Inr (Arr [])
        \<or> (\<exists>kvs more. get_prop result2 ''predictions'' = Inr (Arr (Obj kvs # more))
              \<and> (map_of kvs ''bytesBase64Encoded'' = None
                   \<or> map_of kvs ''bytesBase64Encoded'' = Some (Str [])))"
    using that b by (auto simp: image_payload_def bind_err_def)
  have present_router: "handler w e ev tr =
                Some (Some (data_response (Str ''gemini-image'')
                              (Str (''data:image/png;base64,'' @ b64))), ?tr2)"
    if "get_prop result2 ''predictions'' = Inr (Arr (Obj kvs # more))"
       "map_of kvs ''bytesBase64Encoded'' = Some (Str b64)" "b64 \<noteq> []" for kvs more b64
    using present[OF that(1,2)] that(3) router by simp
  have absent_router: "handler w e ev tr =
                Some (Some (error_response ''No se pudo generar la imagen.''), ?tr2)"
    if "get_prop result2 ''predictions'' = Inr Undefined
        \<or> get_prop result2 ''predictions'' = Inr (Arr [])
        \<or> (\<exists>kvs more. get_prop result2 ''predictions'' = Inr (Arr (Obj kvs # more))
              \<and> (map_of kvs ''bytesBase64Encoded'' = None
                   \<or> map_of kvs ''bytesBase64Encoded'' = Some (Str [])))"
    using absent[OF that] router by simp
  show ?thesis
  proof (intro exI[of _ b] conjI allI impI)
    show "image_payload result2 = Inr b" by (rule b)
  qed (use router image present present_router absent absent_router in \<open>blast+\<close>)
qed

theorem image_prompt_and_result_witness:
  "handler text_then_image keys (post ''gemini-image'' (Obj [(''prompt'', Str ''a fox'')])) [] =
     Some (Some (data_response (Str ''gemini-image'') (Str ''data:image/png;base64,aGk='')),
           [generate_request (Some ''g-key'') (Str ''a fox''),
            imagen_request (Some ''g-key'') (Str ''A red fox. '')])
   \<and> handler text_then_nothing keys (post ''gemini-image'' (Obj [(''prompt'', Str ''a fox'')])) [] =
     Some (Some (error_response ''No se pudo generar la imagen.''),
           [generate_request (Some ''g-key'') (Str ''a fox''),
            imagen_request (Some ''g-key'') (Str ''A red fox. '')])"
proof -
  let ?image = "Obj [(''predictions'', Arr [Obj [(''bytesBase64Encoded'', Str ''aGk='')]])]"
  let ?empty = "Obj [(''predictions'', Arr [])]"
  let ?text = "generated ''A red fox. **Tip de Oro: use soft light''"
  have req: "tool_request (post ''gemini-image'' (Obj [(''prompt'', Str ''a fox'')])) ''gemini-image''
      (Obj [(''prompt'', Str ''a fox'')])"
    by (simp add: tool_request_def post_def)
  have pr: "get_prop (Obj [(''prompt'', Str ''a fox'')]) ''prompt'' = Inr (Str ''a fox'')"
    by simp
  have ok1: "ok \<lparr>status = 200, json = Inr ?text\<rparr>"
    by (simp add: ok_def)
  have body1: "json \<lparr>status = 200, json = Inr ?text\<rparr> = Inr ?text"
    by simp
  have cand: "first_candidate_text ?text =
      Inr (Str (''A red fox. '' @ ''**Tip de Oro'' @ '': use soft light''))"
    by (simp add: first_candidate_text_def generated_def bind_err_def)
  have once: "\<not> sublist ''**Tip de Oro'' (''A red fox. '' @ butlast ''**Tip de Oro'')"
    by (simp add: sublist_code)
  have resp1: "text_then_image (length ([]::trace)) = Inr \<lparr>status = 200, json = Inr ?text\<rparr>"
    by (simp add: text_then_image_def reply_def)
  have resp2: "text_then_image (Suc (length ([]::trace))) = Inr \<lparr>status = 200, json = Inr ?image\<rparr>"
    by (simp add: text_then_image_def reply_def)
  have ok2: "ok \<lparr>status = 200, json = Inr ?image\<rparr>" by (simp add: ok_def)
  have body2: "json \<lparr>status = 200, json = Inr ?image\<rparr> = Inr ?image" by simp
  have resp3: "text_then_nothing (length ([]::trace)) = Inr \<lparr>status = 200, json = Inr ?text\<rparr>"
    by (simp add: text_then_nothing_def reply_def)
  have resp4: "text_then_nothing (Suc (length ([]::trace))) = Inr \<lparr>status = 200, json = Inr ?empty\<rparr>"
    by (simp add: text_then_nothing_def reply_def)
  have ok4: "ok \<lparr>status = 200, json = Inr ?empty\<rparr>" by (simp add: ok_def)
  have body4: "json \<lparr>status = 200, json = Inr ?empty\<rparr> = Inr ?empty" by simp
  have readable: "?image \<noteq> Null" "?image \<noteq> Undefined" "?empty \<noteq> Null" "?empty \<noteq> Undefined"
    by simp_all
  from image_prompt_and_result[where w = text_then_image and tr = "[]" and e = keys,
      OF req pr resp1 ok1 body1 cand once resp2 ok2 body2 readable(1,2)]
  have one: "handler text_then_image keys (post ''gemini-image'' (Obj [(''prompt'', Str ''a fox'')])) [] =
     Some (Some (data_response (Str ''gemini-image'') (Str ''data:image/png;base64,aGk='')),
           [generate_request (Some ''g-key'') (Str ''a fox''),
            imagen_request (Some ''g-key'') (Str ''A red fox. '')])"
    by (auto simp: keys_def)
  from image_prompt_and_result[where w = text_then_nothing and tr = "[]" and e = keys,
      OF req pr resp3 ok1 body1 cand once resp4 ok4 body4 readable(3,4)]
  have two: "handler text_then_nothing keys (post ''gemini-image'' (Obj [(''prompt'', Str ''a fox'')])) [] =
     Some (Some (error_response ''No se pudo generar la imagen.''),
           [generate_request (Some ''g-key'') (Str ''a fox''),
            imagen_request (Some ''g-key'') (Str ''A red fox. '')])"
    by (auto simp: keys_def)
  from one two show ?thesis by simp
qed

end
